theory Spec2Isabelle
  imports Complex_Main "HOL-Library.Multiset"
begin

section \<open>stage.py: the random .nara template generator\<close>

subsection \<open>Values\<close>

text \<open>
  The generator builds Python dicts, lists, strings, ints, booleans and None and hands them
  to the json module. A dict literal keeps its keys in the order written, so a dict is an
  association list.
\<close>

datatype json =
    JNull
  | JBool bool
  | JInt int
  | JStr string
  | JList "json list"
  | JDict "(string \<times> json) list"

text \<open>\<^verbatim>\<open>d.get(k)\<close>: the value stored under a key of a dict, None for anything else.\<close>

fun jget :: "json \<Rightarrow> string \<Rightarrow> json option" where
  "jget (JDict kvs) k = map_of kvs k"
| "jget _ k = None"

text \<open>The exceptions that the two scripts can meet in the libraries they call.\<close>

datatype error =
    ValueError
  | KeyError
  | ZeroDivisionError
  | FileNotFoundError
  | UnidentifiedImageError
  | OSError
  | OverflowError

subsection \<open>The randomness source\<close>

text \<open>
  The module-level generator of Python's \<^verbatim>\<open>random\<close> is hidden global state. Here it is
  an explicit tape of raw draws, threaded through every function: each primitive takes
  the next raw draw and reduces it to its range, so that a statement about every tape is
  a statement about every sequence of outcomes. A tape that has run out keeps giving 0.
\<close>

type_synonym rng = "nat list"

definition draw :: "rng \<Rightarrow> nat \<times> rng" where
  "draw g = (case g of [] \<Rightarrow> (0, []) | r # rs \<Rightarrow> (r, rs))"

text \<open>\<^verbatim>\<open>random._randbelow(n)\<close>, for \<open>0 < n\<close>: a value in \<open>0..<n\<close>.\<close>

definition randbelow :: "nat \<Rightarrow> rng \<Rightarrow> nat \<times> rng" where
  "randbelow n g = (let (r, g') = draw g in (r mod n, g'))"

text \<open>\<^verbatim>\<open>random.choice(seq)\<close> on a non-empty sequence (every call site passes a non-empty literal).\<close>

definition random_choice :: "'a list \<Rightarrow> rng \<Rightarrow> 'a \<times> rng" where
  "random_choice seq g = (let (j, g') = randbelow (length seq) g in (seq ! j, g'))"

text \<open>\<^verbatim>\<open>random.randint(a, b)\<close> with \<open>a \<le> b\<close> (every call site passes literals with \<open>a \<le> b\<close>).\<close>

definition randint :: "int \<Rightarrow> int \<Rightarrow> rng \<Rightarrow> int \<times> rng" where
  "randint a b g = (let (j, g') = randbelow (nat (b - a + 1)) g in (a + int j, g'))"

text \<open>
  \<^verbatim>\<open>random.random()\<close>: a double \<open>k / 2^53\<close> with \<open>0 \<le> k < 2^53\<close>, kept as the exact rational.
  The float literals it is compared with are the exact values of the doubles they denote.
\<close>

definition random_random :: "rng \<Rightarrow> rat \<times> rng" where
  "random_random g = (let (k, g') = randbelow (2 ^ 53) g in (of_nat k / 2 ^ 53, g'))"

definition float_0_2 :: rat where "float_0_2 = 3602879701896397 / 2 ^ 54"
definition float_0_3 :: rat where "float_0_3 = 5404319552844595 / 2 ^ 54"
definition float_0_4 :: rat where "float_0_4 = 3602879701896397 / 2 ^ 53"
definition float_0_5 :: rat where "float_0_5 = 1 / 2"

text \<open>
  \<^verbatim>\<open>random.sample(population, k)\<close>. CPython raises ValueError unless \<open>0 \<le> k \<le> n\<close> and
  otherwise picks \<open>k\<close> positions without replacement; for a population this small
  (\<open>n \<le> 21 + 4 ^ \<lceil>log\<^sub>4 (3 k)\<rceil>\<close>, which holds for the 73 words and \<open>15 \<le> k \<le> 25\<close>) it
  runs the pool loop below: \<open>m\<close> is \<open>n - i\<close>, the number of positions still in the pool.
\<close>

fun sample_loop :: "'a list \<Rightarrow> nat \<Rightarrow> nat \<Rightarrow> rng \<Rightarrow> 'a list \<times> rng" where
  "sample_loop pool m 0 g = ([], g)"
| "sample_loop pool m (Suc k) g =
     (let (j, g1) = randbelow m g;
          x = pool ! j;
          pool' = pool[j := pool ! (m - 1)];
          (xs, g2) = sample_loop pool' (m - 1) k g1
      in (x # xs, g2))"

definition random_sample :: "'a list \<Rightarrow> int \<Rightarrow> rng \<Rightarrow> error + ('a list \<times> rng)" where
  "random_sample population k g =
     (if k < 0 \<or> int (length population) < k then Inl ValueError
      else Inr (sample_loop population (length population) (nat k) g))"

subsection \<open>Strings\<close>

text \<open>A \<open>string\<close> holds the UTF-8 bytes of the Python string; the word banks are ASCII.\<close>

definition digit_char :: "nat \<Rightarrow> char" where
  "digit_char d = ''0123456789'' ! d"

function str_nat :: "nat \<Rightarrow> string" where
  "str_nat n = (if n < 10 then [digit_char n] else str_nat (n div 10) @ [digit_char (n mod 10)])"
  by pat_completeness auto
termination
  by (relation "measure id") auto

declare str_nat.simps [simp del]

text \<open>\<^verbatim>\<open>str(i)\<close>, which is what an f-string does with an int.\<close>

definition str_int :: "int \<Rightarrow> string" where
  "str_int i = (if i < 0 then CHR ''-'' # str_nat (nat (- i)) else str_nat (nat i))"

text \<open>\<^verbatim>\<open>sep.join(words)\<close>\<close>

fun join :: "string \<Rightarrow> string list \<Rightarrow> string" where
  "join sep [] = []"
| "join sep [w] = w"
| "join sep (w # ws) = w @ sep @ join sep ws"

text \<open>\<^verbatim>\<open>s.upper()\<close> on ASCII text; other bytes stay as they are.\<close>

definition upper_char :: "char \<Rightarrow> char" where
  "upper_char c =
     (case map_of (zip ''abcdefghijklmnopqrstuvwxyz'' ''ABCDEFGHIJKLMNOPQRSTUVWXYZ'') c of
        Some u \<Rightarrow> u
      | None \<Rightarrow> c)"

definition upper :: "string \<Rightarrow> string" where
  "upper s = map upper_char s"

text \<open>\<^verbatim>\<open>s.startswith(p)\<close>\<close>

definition startswith :: "string \<Rightarrow> string \<Rightarrow> bool" where
  "startswith s p = (take (length p) s = p)"

subsection \<open>Word banks, layout presets, image URLs\<close>

definition ADJECTIVES :: "string list" where
  "ADJECTIVES = [
     ''quantum'', ''neural'', ''cosmic'', ''synthetic'', ''ethereal'', ''digital'',
     ''organic'', ''crystalline'', ''ambient'', ''fractal'', ''temporal'', ''spatial'',
     ''kinetic'', ''radiant'', ''sublime'', ''arcane'', ''prismatic'', ''infinite'']"

definition NOUNS :: "string list" where
  "NOUNS = [
     ''matrix'', ''topology'', ''manifold'', ''field'', ''lattice'', ''network'',
     ''system'', ''architecture'', ''framework'', ''structure'', ''membrane'', ''grid'',
     ''interface'', ''protocol'', ''substrate'', ''apparatus'', ''mechanism'', ''circuit'']"

definition VERBS :: "string list" where
  "VERBS = [
     ''transform'', ''synthesize'', ''modulate'', ''cascade'', ''oscillate'', ''resonate'',
     ''propagate'', ''converge'', ''emerge'', ''iterate'', ''evolve'', ''compose'',
     ''distribute'', ''aggregate'', ''encode'', ''decode'', ''transmit'', ''reflect'']"

definition TECH_WORDS :: "string list" where
  "TECH_WORDS = [
     ''algorithm'', ''protocol'', ''bandwidth'', ''latency'', ''throughput'', ''entropy'',
     ''coherence'', ''interference'', ''resonance'', ''coupling'', ''gradient'', ''flux'',
     ''tensor'', ''vector'', ''scalar'', ''eigen'', ''fourier'', ''laplace'', ''kernel'']"

record spacing =
  titleAboveImage :: int
  captionBelowImage :: int
  sidebarFromImage :: int
  footerBelowCaption :: int

record layout =
  preset_name :: string
  imageWidth :: int
  spacing :: spacing

definition LAYOUT_PRESETS :: "layout list" where
  "LAYOUT_PRESETS = [
     \<lparr>preset_name = ''poster'', imageWidth = 40, spacing = \<lparr>titleAboveImage = 2, captionBelowImage = 2, sidebarFromImage = 4, footerBelowCaption = 3\<rparr>\<rparr>,
     \<lparr>preset_name = ''card'', imageWidth = 30, spacing = \<lparr>titleAboveImage = 1, captionBelowImage = 1, sidebarFromImage = 2, footerBelowCaption = 2\<rparr>\<rparr>,
     \<lparr>preset_name = ''banner'', imageWidth = 80, spacing = \<lparr>titleAboveImage = 1, captionBelowImage = 1, sidebarFromImage = 3, footerBelowCaption = 2\<rparr>\<rparr>,
     \<lparr>preset_name = ''postcard'', imageWidth = 35, spacing = \<lparr>titleAboveImage = 2, captionBelowImage = 2, sidebarFromImage = 3, footerBelowCaption = 2\<rparr>\<rparr>]"

text \<open>The dict stored under \<^verbatim>\<open>"spacing"\<close> of a preset, as it goes into the document.\<close>

definition spacing_json :: "spacing \<Rightarrow> json" where
  "spacing_json s = JDict [
     (''titleAboveImage'', JInt (titleAboveImage s)),
     (''captionBelowImage'', JInt (captionBelowImage s)),
     (''sidebarFromImage'', JInt (sidebarFromImage s)),
     (''footerBelowCaption'', JInt (footerBelowCaption s))]"

definition IMAGE_URLS :: "string list" where
  "IMAGE_URLS = [
     ''https://picsum.photos/400/300'',
     ''https://picsum.photos/500/400'',
     ''https://picsum.photos/600/400'',
     ''https://source.unsplash.com/random/400x300'',
     ''https://source.unsplash.com/random/500x400'']"

subsection \<open>Titles and the dictionary\<close>

text \<open>The loop of \<^verbatim>\<open>random_title\<close>: one coin and one word per round.\<close>

fun title_words :: "nat \<Rightarrow> rng \<Rightarrow> string list \<times> rng" where
  "title_words 0 g = ([], g)"
| "title_words (Suc n) g =
     (let (coin, g1) = random_choice [True, False] g;
          (w, g2) = (if coin then random_choice ADJECTIVES g1 else random_choice NOUNS g1);
          (ws, g3) = title_words n g2
      in (w # ws, g3))"

definition random_title :: "int \<Rightarrow> rng \<Rightarrow> string \<times> rng" where
  "random_title word_count g =
     (let (words, g') = title_words (nat word_count) g in (upper (join '' '' words), g'))"

definition all_words :: "string list" where
  "all_words = ADJECTIVES @ NOUNS @ VERBS @ TECH_WORDS"

definition random_dictionary :: "int \<Rightarrow> rng \<Rightarrow> error + (string list \<times> rng)" where
  "random_dictionary sz g = random_sample all_words (min sz (int (length all_words))) g"

subsection \<open>Region generators\<close>

definition generate_title_region :: "layout \<Rightarrow> rng \<Rightarrow> json \<times> rng" where
  "generate_title_region layout g =
     (let (word_count, g1) = randint 1 3 g;
          (title, g2) = random_title word_count g1;
          (u, g3) = random_random g2;
          (alignment, g4) = random_choice [''center'', ''left''] g3
      in (JDict [
            (''id'', JStr ''title''),
            (''type'', JStr ''text''),
            (''position'', JDict [
               (''x'', JStr ''startX''),
               (''y'', JStr (''startY - '' @ str_int (titleAboveImage (spacing layout))))]),
            (''content'', JDict [
               (''static'', JStr title),
               (''transform'', if float_0_3 < u then JStr ''uppercase'' else JNull)]),
            (''layout'', JDict [
               (''alignment'', JStr alignment),
               (''width'', JInt (imageWidth layout))])],
          g4))"

definition generate_image_region :: json where
  "generate_image_region =
     JDict [
       (''id'', JStr ''main-image''),
       (''type'', JStr ''image''),
       (''position'', JDict [(''x'', JStr ''startX''), (''y'', JStr ''startY'')]),
       (''source'', JStr ''imageUrl'')]"

definition generate_caption_region :: "layout \<Rightarrow> rng \<Rightarrow> json \<times> rng" where
  "generate_caption_region layout g =
     (let (wordCount, g1) = randint 8 20 g
      in (JDict [
            (''id'', JStr ''caption''),
            (''type'', JStr ''text''),
            (''position'', JDict [
               (''x'', JStr ''startX''),
               (''y'', JStr (''startY + imageHeight + '' @ str_int (captionBelowImage (spacing layout))))]),
            (''content'', JDict [
               (''generator'', JStr ''bogus''),
               (''wordCount'', JInt wordCount)]),
            (''layout'', JDict [
               (''wrap'', JBool True),
               (''width'', JInt (imageWidth layout))])],
          g1))"

text \<open>The divider repeats U+2500, three bytes in UTF-8.\<close>

definition generate_sidebar_region :: "layout \<Rightarrow> rng \<Rightarrow> json \<times> rng" where
  "generate_sidebar_region layout g =
     (let (sidebar_width, g1) = randint 25 35 g;
          (header, g2) = random_choice [''NOTES'', ''META'', ''INFO'', ''DATA'', ''CONTEXT''] g1;
          (wordCount, g3) = randint 15 40 g2
      in (JDict [
            (''id'', JStr ''sidebar''),
            (''type'', JStr ''composite''),
            (''position'', JDict [
               (''x'', JStr (''startX + imageWidth + '' @ str_int (sidebarFromImage (spacing layout)))),
               (''y'', JStr ''startY'')]),
            (''components'', JList [
               JDict [
                 (''id'', JStr ''sidebar-header''),
                 (''type'', JStr ''text''),
                 (''position'', JDict [(''x'', JStr ''sidebarX''), (''y'', JStr ''sidebarStartY'')]),
                 (''content'', JDict [(''static'', JStr header)])],
               JDict [
                 (''id'', JStr ''sidebar-divider''),
                 (''type'', JStr ''text''),
                 (''position'', JDict [(''x'', JStr ''sidebarX''), (''y'', JStr ''sidebarStartY + 1'')]),
                 (''content'', JDict [
                    (''repeat'', JStr [CHR 0xE2, CHR 0x94, CHR 0x80]),
                    (''count'', JInt sidebar_width)])],
               JDict [
                 (''id'', JStr ''sidebar-body''),
                 (''type'', JStr ''text''),
                 (''position'', JDict [(''x'', JStr ''sidebarX''), (''y'', JStr ''sidebarStartY + 2'')]),
                 (''content'', JDict [
                    (''generator'', JStr ''bogus''),
                    (''wordCount'', JInt wordCount)]),
                 (''layout'', JDict [
                    (''wrap'', JBool True),
                    (''width'', JInt sidebar_width)])]])],
          g3))"

text \<open>Prefix and suffix are U+2014 with a space, after and before.\<close>

definition generate_footer_region :: "layout \<Rightarrow> rng \<Rightarrow> json \<times> rng" where
  "generate_footer_region layout g =
     (let (wordCount, g1) = randint 1 3 g
      in (JDict [
            (''id'', JStr ''footer''),
            (''type'', JStr ''text''),
            (''position'', JDict [
               (''x'', JStr ''startX''),
               (''y'', JStr (''startY + imageHeight + ''
                    @ str_int (captionBelowImage (spacing layout) + footerBelowCaption (spacing layout) + 2)))]),
            (''content'', JDict [
               (''generator'', JStr ''bogus''),
               (''wordCount'', JInt wordCount),
               (''prefix'', JStr [CHR 0xE2, CHR 0x80, CHR 0x94, CHR '' '']),
               (''suffix'', JStr [CHR '' '', CHR 0xE2, CHR 0x80, CHR 0x94])]),
            (''layout'', JDict [
               (''alignment'', JStr ''center''),
               (''width'', JInt (imageWidth layout))])],
          g1))"

definition generate_label_region :: "rng \<Rightarrow> json \<times> rng" where
  "generate_label_region g =
     (let (offset_x, g1) = randint 0 20 g;
          (offset_y, g2) = randint (- 10) 30 g1;
          (suffix, g3) = randint 1000 9999 g2;
          (title, g4) = random_title 1 g3
      in (JDict [
            (''id'', JStr (''label-'' @ str_int suffix)),
            (''type'', JStr ''text''),
            (''position'', JDict [
               (''x'', JStr (''startX + '' @ str_int offset_x)),
               (''y'', JStr (''startY + '' @ str_int offset_y))]),
            (''content'', JDict [(''static'', JStr title)])],
          g4))"

subsection \<open>The document\<close>

text \<open>
  Lines 210 to 224, under the comment \<^verbatim>\<open># Random defaults\<close>: the name, the two flags
  and the number of labels. (The source also reassigns \<^verbatim>\<open>include_labels\<close> there and never
  reads it again.)
\<close>

definition random_defaults ::
  "string option \<Rightarrow> bool option \<Rightarrow> bool option \<Rightarrow> bool option \<Rightarrow> rng
     \<Rightarrow> string \<times> bool \<times> bool \<times> int \<times> rng" where
  "random_defaults name include_sidebar include_footer include_labels g =
     (let (name, g1) =
            (case name of
               None \<Rightarrow>
                 (let (adjective, g') = random_choice ADJECTIVES g;
                      (noun, g'') = random_choice NOUNS g'
                  in (adjective @ ''-'' @ noun, g''))
             | Some n \<Rightarrow> (n, g));
          (include_sidebar, g2) =
            (case include_sidebar of
               None \<Rightarrow> (let (u, g') = random_random g1 in (float_0_4 < u, g'))
             | Some b \<Rightarrow> (b, g1));
          (include_footer, g3) =
            (case include_footer of
               None \<Rightarrow> (let (u, g') = random_random g2 in (float_0_5 < u, g'))
             | Some b \<Rightarrow> (b, g2));
          (num_labels, g4) =
            (case include_labels of
               None \<Rightarrow> randint 0 3 g3
             | Some b \<Rightarrow> (if b then randint 1 3 g3 else (0, g3)))
      in (name, include_sidebar, include_footer, num_labels, g4))"

text \<open>
  Lines 226 to 229 of \<^verbatim>\<open>generate_nara_template\<close>, the layout selector: a random preset
  when no name is given, else the first preset of that name, else the first preset.
\<close>

definition select_layout :: "string option \<Rightarrow> rng \<Rightarrow> layout \<times> rng" where
  "select_layout layout_preset g =
     (case layout_preset of
        None \<Rightarrow> random_choice LAYOUT_PRESETS g
      | Some p \<Rightarrow>
          (case filter (\<lambda>l. preset_name l = p) LAYOUT_PRESETS of
             l # _ \<Rightarrow> (l, g)
           | [] \<Rightarrow> (LAYOUT_PRESETS ! 0, g)))"

text \<open>\<^verbatim>\<open>for _ in range(num_labels): regions.append(generate_label_region())\<close>\<close>

fun append_labels :: "nat \<Rightarrow> json list \<Rightarrow> rng \<Rightarrow> json list \<times> rng" where
  "append_labels 0 regions g = (regions, g)"
| "append_labels (Suc n) regions g =
     (let (label, g1) = generate_label_region g in append_labels n (regions @ [label]) g1)"

text \<open>Lines 231 to 252, under the comment \<^verbatim>\<open># Build regions\<close>.\<close>

definition build_regions :: "layout \<Rightarrow> bool \<Rightarrow> bool \<Rightarrow> int \<Rightarrow> rng \<Rightarrow> json list \<times> rng" where
  "build_regions layout include_sidebar include_footer num_labels g =
     (let regions = [];
          (title, g1) = generate_title_region layout g;
          regions = regions @ [title];
          regions = regions @ [generate_image_region];
          (u, g2) = random_random g1;
          (regions, g3) =
            (if float_0_2 < u
             then (let (caption, g') = generate_caption_region layout g2 in (regions @ [caption], g'))
             else (regions, g2));
          (regions, g4) =
            (if include_sidebar
             then (let (sidebar, g') = generate_sidebar_region layout g3 in (regions @ [sidebar], g'))
             else (regions, g3));
          (regions, g5) =
            (if include_footer
             then (let (footer, g') = generate_footer_region layout g4 in (regions @ [footer], g'))
             else (regions, g4))
      in append_labels (nat num_labels) regions g5)"

text \<open>
  Lines 254 to 288, under the comment \<^verbatim>\<open># Build template\<close>: the document, its draws in
  the order Python evaluates the dict literal.
\<close>

definition build_template :: "string \<Rightarrow> layout \<Rightarrow> json list \<Rightarrow> rng \<Rightarrow> error + (json \<times> rng)" where
  "build_template name layout regions g =
     (let (imageUrl, g1) = random_choice IMAGE_URLS g;
          (dictionary_size, g2) = randint 15 25 g1
      in case random_dictionary dictionary_size g2 of
           Inl e \<Rightarrow> Inl e
         | Inr (dictionary, g3) \<Rightarrow>
             (let (text, g4) = random_choice [''worldData'', ''lightModeData''] g3;
                  (ephemeral, g5) = random_choice [True, False] g4
              in Inr (JDict [
                   (''version'', JStr ''1.0.0''),
                   (''type'', JStr ''stage''),
                   (''name'', JStr name),
                   (''description'', JStr (''Procedurally generated '' @ preset_name layout @ '' template'')),
                   (''parameters'', JDict [
                      (''imageUrl'', JDict [
                         (''type'', JStr ''string''),
                         (''default'', JStr imageUrl),
                         (''description'', JStr ''URL of the image to display'')]),
                      (''cursorPos'', JDict [
                         (''type'', JStr ''point''),
                         (''description'', JStr ''Position where the stage will be rendered'')])]),
                   (''layout'', JDict [
                      (''imageWidth'', JInt (imageWidth layout)),
                      (''spacing'', spacing_json (spacing layout))]),
                   (''regions'', JList regions),
                   (''textGenerator'', JDict [
                      (''name'', JStr ''bogus''),
                      (''dictionary'', JList (map JStr dictionary))]),
                   (''storage'', JDict [
                      (''text'', JStr text),
                      (''images'', JStr ''stagedImageData''),
                      (''ephemeral'', JBool ephemeral),
                      (''clearKey'', JStr ''Escape'')])],
                 g5)))"

text \<open>\<^verbatim>\<open>generate_nara_template\<close>: the four blocks in the order of the source.\<close>

definition generate_nara_template ::
  "string option \<Rightarrow> bool option \<Rightarrow> bool option \<Rightarrow> bool option \<Rightarrow> string option \<Rightarrow> rng
     \<Rightarrow> error + (json \<times> rng)" where
  "generate_nara_template name include_sidebar include_footer include_labels layout_preset g =
     (let (name, include_sidebar, include_footer, num_labels, g1) =
            random_defaults name include_sidebar include_footer include_labels g;
          (layout, g2) = select_layout layout_preset g1;
          (regions, g3) = build_regions layout include_sidebar include_footer num_labels g2
      in build_template name layout regions g3)"

subsection \<open>Reading a document\<close>

text \<open>The regions of a document, their ids, types and children.\<close>

definition regions_of :: "json \<Rightarrow> json list" where
  "regions_of doc = (case jget doc ''regions'' of Some (JList rs) \<Rightarrow> rs | _ \<Rightarrow> [])"

definition region_id :: "json \<Rightarrow> string option" where
  "region_id r = (case jget r ''id'' of Some (JStr s) \<Rightarrow> Some s | _ \<Rightarrow> None)"

definition region_type :: "json \<Rightarrow> string option" where
  "region_type r = (case jget r ''type'' of Some (JStr s) \<Rightarrow> Some s | _ \<Rightarrow> None)"

definition components_of :: "json \<Rightarrow> json list" where
  "components_of r = (case jget r ''components'' of Some (JList cs) \<Rightarrow> cs | _ \<Rightarrow> [])"

text \<open>Every region of a document: the listed ones, each followed by its children.\<close>

definition all_regions :: "json \<Rightarrow> json list" where
  "all_regions doc = concat (map (\<lambda>r. r # components_of r) (regions_of doc))"

definition is_label :: "json \<Rightarrow> bool" where
  "is_label r = (case region_id r of Some s \<Rightarrow> startswith s ''label-'' | None \<Rightarrow> False)"

definition dictionary_of :: "json \<Rightarrow> json list" where
  "dictionary_of doc =
     (case jget doc ''textGenerator'' of
        Some tg \<Rightarrow> (case jget tg ''dictionary'' of Some (JList ws) \<Rightarrow> ws | _ \<Rightarrow> [])
      | None \<Rightarrow> [])"

text \<open>
  The kinds of region the document assembler emits: the title by its id, the image by its
  type, caption, sidebar and footer by their ids, a label by the prefix of its id.
\<close>

datatype region_kind = Title | Image | Caption | Sidebar | Footer | Label | Other

definition kind_of :: "json \<Rightarrow> region_kind" where
  "kind_of r =
     (if region_id r = Some ''title'' then Title
      else if region_type r = Some ''image'' then Image
      else if region_id r = Some ''caption'' then Caption
      else if region_id r = Some ''sidebar'' then Sidebar
      else if region_id r = Some ''footer'' then Footer
      else if is_label r then Label
      else Other)"

text \<open>\<^verbatim>\<open>doc[k1][k2]...\<close>, None where a key is missing.\<close>

fun jpath :: "json \<Rightarrow> string list \<Rightarrow> json option" where
  "jpath v [] = Some v"
| "jpath v (k # ks) = (case jget v k of None \<Rightarrow> None | Some v' \<Rightarrow> jpath v' ks)"

subsection \<open>The command line\<close>

text \<open>
  The namespace that argparse returns. \<^verbatim>\<open>main\<close> and \<^verbatim>\<open>generate_batch\<close> create a directory,
  write files and print. A run is the list of these effects in the order they happened,
  with what the run raised or returned: the files written before an exception stay
  written. A written file holds the document that \<^verbatim>\<open>json.dump\<close> serialises.

  Whether \<^verbatim>\<open>os.makedirs(path, exist_ok=True)\<close> succeeds, and whether \<^verbatim>\<open>open(path, 'w')\<close> with the
  \<^verbatim>\<open>json.dump\<close> into the opened file does, is up to the file system at the moment the run
  reaches the call: each raises an OSError otherwise (FileNotFoundError for
  \<^verbatim>\<open>os.makedirs('')\<close>, PermissionError, and so on), which neither \<^verbatim>\<open>main\<close> nor \<^verbatim>\<open>generate_batch\<close>
  catches. A file that could not be written in full does not count as written.
\<close>

record filesystem =
  can_makedirs :: "string \<Rightarrow> bool"
  can_write :: "string \<Rightarrow> bool"

record args =
  arg_count :: int
  arg_name :: "string option"
  arg_output :: string
  arg_layout :: "string option"
  arg_sidebar :: bool
  arg_no_sidebar :: bool
  arg_footer :: bool
  arg_no_footer :: bool
  arg_labels :: bool
  arg_stdout :: bool

datatype effect =
    MakeDirs string
  | WriteFile string json
  | PrintLine string
  | PrintJson json

text \<open>\<^verbatim>\<open>os.path.join(a, b)\<close> on POSIX.\<close>

definition os_path_join :: "string \<Rightarrow> string \<Rightarrow> string" where
  "os_path_join a b =
     (if startswith b ''/'' then b
      else if a = [] \<or> last a = CHR ''/'' then a @ b
      else a @ ''/'' @ b)"

text \<open>
  The loop of \<^verbatim>\<open>generate_batch\<close> over \<^verbatim>\<open>range(count)\<close>. \<^verbatim>\<open>template['name']\<close> raises KeyError
  without the key; the generator always stores a string there.
\<close>

fun batch_loop ::
  "filesystem \<Rightarrow> nat list \<Rightarrow> string \<Rightarrow> string list \<Rightarrow> effect list \<Rightarrow> rng
     \<Rightarrow> effect list \<times> (error + (string list \<times> rng))" where
  "batch_loop fs [] output_dir generated fx g = (fx, Inr (generated, g))"
| "batch_loop fs (i # rest) output_dir generated fx g =
     (case generate_nara_template None None None None None g of
        Inl e \<Rightarrow> (fx, Inl e)
      | Inr (template, g1) \<Rightarrow>
          (case jget template ''name'' of
             Some (JStr template_name) \<Rightarrow>
               (let filename = template_name @ ''-'' @ str_int (int i + 1) @ ''.nara'';
                    filepath = os_path_join output_dir filename
                in if \<not> can_write fs filepath then (fx, Inl OSError)
                   else
                     batch_loop fs rest output_dir (generated @ [filepath])
                       (fx @ [WriteFile filepath template, PrintLine (''Generated: '' @ filepath)]) g1)
           | _ \<Rightarrow> (fx, Inl KeyError)))"

definition generate_batch ::
  "filesystem \<Rightarrow> int \<Rightarrow> string \<Rightarrow> rng \<Rightarrow> effect list \<times> (error + (string list \<times> rng))" where
  "generate_batch fs cnt output_dir g =
     (if \<not> can_makedirs fs output_dir then ([], Inl OSError)
      else batch_loop fs [0..<nat cnt] output_dir [] [MakeDirs output_dir] g)"

text \<open>\<^verbatim>\<open>main\<close>, from the parsed arguments on. A name counts when it is neither None nor empty.\<close>

definition main :: "filesystem \<Rightarrow> args \<Rightarrow> rng \<Rightarrow> effect list \<times> (error + rng)" where
  "main fs a g =
     (let sidebar = (if arg_sidebar a then Some True else (if arg_no_sidebar a then Some False else None));
          footer = (if arg_footer a then Some True else (if arg_no_footer a then Some False else None));
          labels = (if arg_labels a then Some (arg_labels a) else None)
      in if arg_stdout a then
           (case generate_nara_template (arg_name a) sidebar footer labels (arg_layout a) g of
              Inl e \<Rightarrow> ([], Inl e)
            | Inr (template, g1) \<Rightarrow> ([PrintJson template], Inr g1))
         else if arg_count a = 1 \<and> arg_name a \<noteq> None \<and> arg_name a \<noteq> Some [] then
           (case generate_nara_template (arg_name a) sidebar footer labels (arg_layout a) g of
              Inl e \<Rightarrow> ([], Inl e)
            | Inr (template, g1) \<Rightarrow>
                (if \<not> can_makedirs fs (arg_output a) then ([], Inl OSError)
                 else
                   (let filepath = os_path_join (arg_output a) (the (arg_name a) @ ''.nara'')
                    in if \<not> can_write fs filepath then ([MakeDirs (arg_output a)], Inl OSError)
                       else
                         ([MakeDirs (arg_output a), WriteFile filepath template,
                           PrintLine (''Generated: '' @ filepath)], Inr g1))))
         else
           (case generate_batch fs (arg_count a) (arg_output a) g of
              (fx, Inl e) \<Rightarrow> (fx, Inl e)
            | (fx, Inr (generated, g1)) \<Rightarrow> (fx, Inr g1)))"






section \<open>scripts/composite_spritesheet.py: the sprite sheet compositor\<close>

subsection \<open>Images and the file system\<close>

text \<open>
  An RGBA image: its size and the pixel at each column and row inside it. The script
  reads the files of one directory and writes two; a file is either a picture that the
  image library decodes or something \<^verbatim>\<open>Image.open\<close> rejects with UnidentifiedImageError.
  Saving under a path raises an OSError (FileNotFoundError, PermissionError) where the path
  cannot be written, for one when its directory does not exist. The Lanczos resampler and
  the blending of a pixel pasted through a mask belong to the image library and are
  parameters; the resampler may refuse a size by raising.

  A Python float is a double, which is a rational number. The two operations of the
  script that round, \<^verbatim>\<open>int / int\<close> and \<^verbatim>\<open>int * float\<close>, are parameters as well: each gives the
  double that IEEE 754 rounding gives, or raises OverflowError, and exact arithmetic does
  not stand for them (in doubles \<^verbatim>\<open>49 * (40 / 1960)\<close> is below 1). Comparing two doubles and
  \<^verbatim>\<open>int(x)\<close>, which drops the fraction, do not round.
\<close>

type_synonym rgba = "nat \<times> nat \<times> nat \<times> nat"

record image =
  im_width :: nat
  im_height :: nat
  im_pixel :: "nat \<Rightarrow> nat \<Rightarrow> rgba"

datatype file_content = Picture image | Not_An_Image

record env =
  env_files :: "string \<Rightarrow> file_content option"
  writable :: "string \<Rightarrow> bool"
  lanczos :: "image \<Rightarrow> int \<times> int \<Rightarrow> error + image"
  mask_blend :: "rgba \<Rightarrow> rgba \<Rightarrow> rgba"
  float_div :: "nat \<Rightarrow> nat \<Rightarrow> error + rat"
  float_mul :: "nat \<Rightarrow> rat \<Rightarrow> error + rat"

text \<open>\<^verbatim>\<open>int(x)\<close> for a float \<open>x\<close>: towards zero.\<close>

definition float_int :: "rat \<Rightarrow> int" where
  "float_int x = (if 0 \<le> x then \<lfloor>x\<rfloor> else \<lceil>x\<rceil>)"

definition os_path_exists :: "env \<Rightarrow> string \<Rightarrow> bool" where
  "os_path_exists e path = (env_files e path \<noteq> None)"

text \<open>\<^verbatim>\<open>Image.open(path).convert("RGBA")\<close>\<close>

definition Image_open :: "env \<Rightarrow> string \<Rightarrow> error + image" where
  "Image_open e path =
     (case env_files e path of
        None \<Rightarrow> Inl FileNotFoundError
      | Some Not_An_Image \<Rightarrow> Inl UnidentifiedImageError
      | Some (Picture img) \<Rightarrow> Inr img)"

text \<open>\<^verbatim>\<open>Image.new("RGBA", size, color)\<close>\<close>

definition Image_new :: "nat \<times> nat \<Rightarrow> rgba \<Rightarrow> image" where
  "Image_new sz color = \<lparr>im_width = fst sz, im_height = snd sz, im_pixel = (\<lambda>i j. color)\<rparr>"

text \<open>\<^verbatim>\<open>im.paste(src, (x, y))\<close>: the pixels of \<open>src\<close> replace those under it; the size of \<open>im\<close> stays.\<close>

definition paste :: "image \<Rightarrow> image \<Rightarrow> int \<times> int \<Rightarrow> image" where
  "paste im src box =
     im\<lparr>im_pixel := (\<lambda>i j.
        let a = int i - fst box; b = int j - snd box
        in if 0 \<le> a \<and> a < int (im_width src) \<and> 0 \<le> b \<and> b < int (im_height src)
           then im_pixel src (nat a) (nat b)
           else im_pixel im i j)\<rparr>"

text \<open>\<^verbatim>\<open>im.paste(src, (x, y), mask)\<close> with \<open>src\<close> as its own mask.\<close>

definition paste_mask :: "(rgba \<Rightarrow> rgba \<Rightarrow> rgba) \<Rightarrow> image \<Rightarrow> image \<Rightarrow> int \<times> int \<Rightarrow> image" where
  "paste_mask bl im src box =
     im\<lparr>im_pixel := (\<lambda>i j.
        let a = int i - fst box; b = int j - snd box
        in if 0 \<le> a \<and> a < int (im_width src) \<and> 0 \<le> b \<and> b < int (im_height src)
           then bl (im_pixel src (nat a) (nat b)) (im_pixel im i j)
           else im_pixel im i j)\<rparr>"

subsection \<open>Configuration\<close>

definition SPRITES_DIR :: string where "SPRITES_DIR = ''public/sprites''"
definition OUTPUT_DIR :: string where "OUTPUT_DIR = ''public/sprites''"

definition WALK_FRAME_SIZE :: "nat \<times> nat" where "WALK_FRAME_SIZE = (32, 40)"
definition IDLE_FRAME_SIZE :: "nat \<times> nat" where "IDLE_FRAME_SIZE = (32, 40)"
definition WALK_FRAMES_PER_DIR :: nat where "WALK_FRAMES_PER_DIR = 8"
definition IDLE_FRAMES_PER_DIR :: nat where "IDLE_FRAMES_PER_DIR = 8"

definition DIRECTIONS :: "string list" where
  "DIRECTIONS = [
     ''south'',
     ''south-west'',
     ''west'',
     ''north-west'',
     ''north'',
     ''north-east'',
     ''east'',
     ''south-east'']"

subsection \<open>Loading and compositing\<close>

text \<open>
  \<^verbatim>\<open>load_and_resize\<close>, line by line. Division by a zero width or height raises
  ZeroDivisionError; the two quotients are taken before \<^verbatim>\<open>min\<close>, the two products in the
  order of the tuple. A product that overflows to infinity makes the \<^verbatim>\<open>int\<close> around it raise
  OverflowError, with nothing done in between: \<^verbatim>\<open>float_mul\<close> raises it then.
\<close>

definition load_and_resize :: "env \<Rightarrow> string \<Rightarrow> nat \<times> nat \<Rightarrow> error + image" where
  "load_and_resize e path target_size =
     (case Image_open e path of
        Inl err \<Rightarrow> Inl err
      | Inr img \<Rightarrow>
          (let canvas = Image_new target_size (0, 0, 0, 0)
           in if im_width img = 0 then Inl ZeroDivisionError
              else case float_div e (fst target_size) (im_width img) of
                Inl err \<Rightarrow> Inl err
              | Inr scale_x \<Rightarrow>
              if im_height img = 0 then Inl ZeroDivisionError
              else case float_div e (snd target_size) (im_height img) of
                Inl err \<Rightarrow> Inl err
              | Inr scale_y \<Rightarrow>
              (let scale = min scale_x scale_y
               in case float_mul e (im_width img) scale of
                 Inl err \<Rightarrow> Inl err
               | Inr new_x \<Rightarrow>
               case float_mul e (im_height img) scale of
                 Inl err \<Rightarrow> Inl err
               | Inr new_y \<Rightarrow>
               (let new_size = (float_int new_x, float_int new_y)
                in case lanczos e img new_size of
                     Inl err \<Rightarrow> Inl err
                   | Inr resized \<Rightarrow>
                       (let x = (int (fst target_size) - fst new_size) div 2;
                            y = (int (snd target_size) - snd new_size) div 2
                        in Inr (paste_mask (mask_blend e) canvas resized (x, y)))))))"

text \<open>The path of line 76.\<close>

definition sprite_path :: "string \<Rightarrow> string \<Rightarrow> string" where
  "sprite_path sprite_prefix direction =
     SPRITES_DIR @ ''/'' @ sprite_prefix @ ''_'' @ direction @ ''.png''"

text \<open>The inner loop: the same frame in every column of a row.\<close>

fun paste_columns :: "nat list \<Rightarrow> nat \<Rightarrow> nat \<times> nat \<Rightarrow> image \<Rightarrow> image \<Rightarrow> image" where
  "paste_columns [] row frame_size frame sheet = sheet"
| "paste_columns (col # cols) row frame_size frame sheet =
     (let x = col * fst frame_size;
          y = row * snd frame_size
      in paste_columns cols row frame_size frame (paste sheet frame (int x, int y)))"

text \<open>The outer loop over \<^verbatim>\<open>enumerate(DIRECTIONS)\<close>, with the lines it prints.\<close>

fun place_rows ::
  "env \<Rightarrow> string \<Rightarrow> nat \<times> nat \<Rightarrow> nat \<Rightarrow> (nat \<times> string) list \<Rightarrow> image \<Rightarrow> string list
     \<Rightarrow> error + (image \<times> string list)" where
  "place_rows e sprite_prefix frame_size frames_per_dir [] sheet out = Inr (sheet, out)"
| "place_rows e sprite_prefix frame_size frames_per_dir ((row, direction) # rest) sheet out =
     (let path = sprite_path sprite_prefix direction
      in if \<not> os_path_exists e path then
           (let frame = Image_new frame_size (0, 0, 0, 0)
            in place_rows e sprite_prefix frame_size frames_per_dir rest
                 (paste_columns [0..<frames_per_dir] row frame_size frame sheet)
                 (out @ [''Warning: Missing '' @ path @ '', using empty frame'']))
         else
           (case load_and_resize e path frame_size of
              Inl err \<Rightarrow> Inl err
            | Inr frame \<Rightarrow>
                place_rows e sprite_prefix frame_size frames_per_dir rest
                  (paste_columns [0..<frames_per_dir] row frame_size frame sheet)
                  (out @ [''Loaded '' @ direction @ '' -> row '' @ str_int (int row)])))"

text \<open>
  \<^verbatim>\<open>create_spritesheet\<close>: the path it returns, the file system with the saved sheet, and the
  lines printed. The last line starts with a newline and has U+00D7 between the sizes.
\<close>

definition create_spritesheet ::
  "env \<Rightarrow> string \<Rightarrow> string \<Rightarrow> nat \<times> nat \<Rightarrow> nat \<Rightarrow> error + (string \<times> env \<times> string list)" where
  "create_spritesheet e sprite_prefix output_name frame_size frames_per_dir =
     (let width = fst frame_size * frames_per_dir;
          height = snd frame_size * 8;
          sheet = Image_new (width, height) (0, 0, 0, 0)
      in case place_rows e sprite_prefix frame_size frames_per_dir (enumerate 0 DIRECTIONS) sheet [] of
           Inl err \<Rightarrow> Inl err
         | Inr (sheet, out) \<Rightarrow>
             (let output_path = OUTPUT_DIR @ ''/'' @ output_name
              in if \<not> writable e output_path then Inl OSError
                 else
                   Inr (output_path,
                        e\<lparr>env_files := (env_files e)(output_path \<mapsto> Picture sheet)\<rparr>,
                        out @ [[CHR 0x0A] @ ''Created '' @ output_path @ '' ('' @ str_int (int width)
                                 @ [CHR 0xC3, CHR 0x97] @ str_int (int height) @ '')''])))"

text \<open>The script body: the prefix from the command line, then the walk and the idle sheet.\<close>

definition composite_main :: "string list \<Rightarrow> env \<Rightarrow> error + (string \<times> string \<times> env \<times> string list)" where
  "composite_main argv e =
     (let prefix = (if 1 < length argv then argv ! 1 else ''test'');
          out = [''Creating sprite sheets for '' @ [CHR 0x27] @ prefix @ [CHR 0x27] @ ''...'' @ [CHR 0x0A]]
      in case create_spritesheet e prefix (prefix @ ''_walk.png'') WALK_FRAME_SIZE WALK_FRAMES_PER_DIR of
           Inl err \<Rightarrow> Inl err
         | Inr (walk_path, e1, out1) \<Rightarrow>
             (case create_spritesheet e1 prefix (prefix @ ''_idle.png'') IDLE_FRAME_SIZE IDLE_FRAMES_PER_DIR of
                Inl err \<Rightarrow> Inl err
              | Inr (idle_path, e2, out2) \<Rightarrow>
                  Inr (walk_path, idle_path, e2,
                       out @ out1 @ out2
                         @ [[CHR 0x0A] @ ''Done! Sprite sheets created:'',
                            ''  Walk: '' @ walk_path,
                            ''  Idle: '' @ idle_path])))"

text \<open>The sheet saved under a path, if there is one.\<close>

definition saved_sheet :: "env \<Rightarrow> string \<Rightarrow> image option" where
  "saved_sheet e path = (case env_files e path of Some (Picture img) \<Rightarrow> Some img | _ \<Rightarrow> None)"

subsection \<open>Three sample sprite directories\<close>

text \<open>
  For the prefix \<^verbatim>\<open>hero\<close>: a directory that holds only the south sprite, a 64 by 80 picture;
  the same directory with a south file that is not a picture; and no directory at all, so
  that no sprite exists and nothing can be written. The resampler of the samples returns
  a one-coloured image of the size asked for; a pasted pixel replaces the one under it;
  their arithmetic is exact, as that of doubles is on the 64 by 80 picture (32 / 64 and
  40 / 80 are 0.5, and 64 * 0.5 and 80 * 0.5 are 32 and 40).
\<close>

definition sample_env :: env where
  "sample_env =
     \<lparr>env_files = (\<lambda>path.
        if path = ''public/sprites/hero_south.png''
        then Some (Picture \<lparr>im_width = 64, im_height = 80, im_pixel = (\<lambda>i j. (200, 30, 30, 255))\<rparr>)
        else None),
      writable = (\<lambda>path. True),
      lanczos = (\<lambda>img sz. Inr (Image_new (nat (fst sz), nat (snd sz)) (200, 30, 30, 255))),
      mask_blend = (\<lambda>src dst. src),
      float_div = (\<lambda>a b. Inr (of_nat a / of_nat b)),
      float_mul = (\<lambda>n x. Inr (of_nat n * x))\<rparr>"

definition broken_env :: env where
  "broken_env =
     sample_env\<lparr>env_files := (\<lambda>path.
        if path = ''public/sprites/hero_south.png'' then Some Not_An_Image else None)\<rparr>"

definition missing_env :: env where
  "missing_env = sample_env\<lparr>env_files := (\<lambda>path. None), writable := (\<lambda>path. False)\<rparr>"

section \<open>Properties of the template generator\<close>

subsection \<open>The randomness source\<close>

lemma draw_simps:
  "draw [] = (0, [])"
  "draw (r # rs) = (r, rs)"
  by (simp_all add: draw_def)

lemma randbelow_tape:
  "randbelow n [] = (0, [])"
  "randbelow n (r # rs) = (r mod n, rs)"
  by (simp_all add: randbelow_def draw_simps)

lemma random_choice_tape:
  "random_choice seq [] = (seq ! 0, [])"
  "random_choice seq (r # rs) = (seq ! (r mod length seq), rs)"
  by (simp_all add: random_choice_def randbelow_tape)

lemma randint_tape:
  "randint a b [] = (a, [])"
  "randint a b (r # rs) = (a + int (r mod nat (b - a + 1)), rs)"
  by (simp_all add: randint_def randbelow_tape)

lemma random_random_tape:
  "random_random [] = (0, [])"
  "random_random (r # rs) = (of_nat (r mod 2 ^ 53) / 2 ^ 53, rs)"
  by (simp_all add: random_random_def randbelow_tape)

lemmas tape_simps = randbelow_tape random_choice_tape randint_tape random_random_tape

lemma randbelow_less: "0 < n \<Longrightarrow> fst (randbelow n g) < n"
  by (simp add: randbelow_def draw_def split: list.splits)

lemma random_choice_in: "seq \<noteq> [] \<Longrightarrow> fst (random_choice seq g) \<in> set seq"
  by (simp add: random_choice_def split_beta randbelow_less)

lemma randint_range: "a \<le> b \<Longrightarrow> a \<le> fst (randint a b g) \<and> fst (randint a b g) \<le> b"
proof -
  assume ab: "a \<le> b"
  then have "fst (randbelow (nat (b - a + 1)) g) < nat (b - a + 1)"
    by (intro randbelow_less) simp
  then show ?thesis
    by (simp add: randint_def split_beta)
qed

subsection \<open>Loops on numerals\<close>

lemma title_words_numeral:
  "title_words (numeral v) g =
     (let (coin, g1) = random_choice [True, False] g;
          (w, g2) = (if coin then random_choice ADJECTIVES g1 else random_choice NOUNS g1);
          (ws, g3) = title_words (pred_numeral v) g2
      in (w # ws, g3))"
  by (simp add: numeral_eq_Suc)

lemma append_labels_numeral:
  "append_labels (numeral v) regions g =
     (let (label, g1) = generate_label_region g
      in append_labels (pred_numeral v) (regions @ [label]) g1)"
  by (simp add: numeral_eq_Suc)

lemma sample_loop_numeral:
  "sample_loop pool m (numeral v) g =
     (let (j, g1) = randbelow m g;
          x = pool ! j;
          pool' = pool[j := pool ! (m - 1)];
          (xs, g2) = sample_loop pool' (m - 1) (pred_numeral v) g1
      in (x # xs, g2))"
  by (simp add: numeral_eq_Suc)

subsection \<open>What each region generator returns\<close>

lemma title_region_facts:
  "region_id (fst (generate_title_region layout g)) = Some ''title''"
  "region_type (fst (generate_title_region layout g)) = Some ''text''"
  "components_of (fst (generate_title_region layout g)) = []"
  by (simp_all add: generate_title_region_def split_beta region_id_def region_type_def
      components_of_def)

lemma image_region_facts:
  "region_id generate_image_region = Some ''main-image''"
  "region_type generate_image_region = Some ''image''"
  "components_of generate_image_region = []"
  by (simp_all add: generate_image_region_def region_id_def region_type_def components_of_def)

lemma caption_region_facts:
  "region_id (fst (generate_caption_region layout g)) = Some ''caption''"
  "region_type (fst (generate_caption_region layout g)) = Some ''text''"
  "components_of (fst (generate_caption_region layout g)) = []"
  by (simp_all add: generate_caption_region_def split_beta region_id_def region_type_def
      components_of_def)

lemma sidebar_region_facts:
  "region_id (fst (generate_sidebar_region layout g)) = Some ''sidebar''"
  "region_type (fst (generate_sidebar_region layout g)) = Some ''composite''"
  "map region_id (components_of (fst (generate_sidebar_region layout g))) =
     [Some ''sidebar-header'', Some ''sidebar-divider'', Some ''sidebar-body'']"
  "map region_type (components_of (fst (generate_sidebar_region layout g))) =
     [Some ''text'', Some ''text'', Some ''text'']"
  by (simp_all add: generate_sidebar_region_def split_beta region_id_def region_type_def
      components_of_def)

lemma footer_region_facts:
  "region_id (fst (generate_footer_region layout g)) = Some ''footer''"
  "region_type (fst (generate_footer_region layout g)) = Some ''text''"
  "components_of (fst (generate_footer_region layout g)) = []"
  by (simp_all add: generate_footer_region_def split_beta region_id_def region_type_def
      components_of_def)

lemma label_region_facts:
  "region_id (fst (generate_label_region g)) =
     Some (''label-'' @ str_int (fst (randint 1000 9999 (snd (randint (- 10) 30 (snd (randint 0 20 g)))))))"
  "region_type (fst (generate_label_region g)) = Some ''text''"
  "components_of (fst (generate_label_region g)) = []"
  "is_label (fst (generate_label_region g))"
  by (simp_all add: generate_label_region_def split_beta region_id_def region_type_def
      components_of_def is_label_def startswith_def)

lemma kind_of_generated:
  "kind_of (fst (generate_title_region layout g)) = Title"
  "kind_of generate_image_region = Image"
  "kind_of (fst (generate_caption_region layout g)) = Caption"
  "kind_of (fst (generate_sidebar_region layout g)) = Sidebar"
  "kind_of (fst (generate_footer_region layout g)) = Footer"
  "kind_of (fst (generate_label_region g')) = Label"
  by (simp_all add: kind_of_def title_region_facts image_region_facts caption_region_facts
      sidebar_region_facts footer_region_facts label_region_facts)

subsection \<open>The shape of the region list\<close>

lemma append_labels_shape:
  "\<exists>ls. fst (append_labels n regions g) = regions @ ls \<and> length ls = n
      \<and> (\<forall>l \<in> set ls. \<exists>g'. l = fst (generate_label_region g'))"
proof (induction n arbitrary: regions g)
  case 0
  then show ?case by simp
next
  case (Suc n)
  obtain label g1 where lg: "generate_label_region g = (label, g1)"
    by (cases "generate_label_region g")
  from Suc.IH [of "regions @ [label]" g1]
  obtain ls where ls: "fst (append_labels n (regions @ [label]) g1) = (regions @ [label]) @ ls"
     "length ls = n" "\<forall>l \<in> set ls. \<exists>g'. l = fst (generate_label_region g')" by blast
  have step: "fst (append_labels (Suc n) regions g) = regions @ (label # ls)"
    using lg ls(1) by simp
  have "\<exists>g'. label = fst (generate_label_region g')"
    by (rule exI [of _ g]) (simp add: lg)
  with ls(3) have "\<forall>l \<in> set (label # ls). \<exists>g'. l = fst (generate_label_region g')"
    by simp
  with step ls(2) show ?case
    by (intro exI [of _ "label # ls"]) simp
qed

lemma build_regions_shape:
  "\<exists>cs ss fs ls.
      fst (build_regions layout include_sidebar include_footer num_labels g) =
        [fst (generate_title_region layout g), generate_image_region] @ cs @ ss @ fs @ ls
    \<and> (cs = [] \<or> (\<exists>g'. cs = [fst (generate_caption_region layout g')]))
    \<and> (if include_sidebar then \<exists>g'. ss = [fst (generate_sidebar_region layout g')] else ss = [])
    \<and> (if include_footer then \<exists>g'. fs = [fst (generate_footer_region layout g')] else fs = [])
    \<and> length ls = nat num_labels
    \<and> (\<forall>l \<in> set ls. \<exists>g'. l = fst (generate_label_region g'))"
proof -
  define g1 where "g1 = snd (generate_title_region layout g)"
  define u where "u = fst (random_random g1)"
  define g2 where "g2 = snd (random_random g1)"
  define cs where "cs = (if float_0_2 < u then [fst (generate_caption_region layout g2)] else [])"
  define g3 where "g3 = (if float_0_2 < u then snd (generate_caption_region layout g2) else g2)"
  define ss where "ss = (if include_sidebar then [fst (generate_sidebar_region layout g3)] else [])"
  define g4 where "g4 = (if include_sidebar then snd (generate_sidebar_region layout g3) else g3)"
  define fs where "fs = (if include_footer then [fst (generate_footer_region layout g4)] else [])"
  define g5 where "g5 = (if include_footer then snd (generate_footer_region layout g4) else g4)"
  have eq: "build_regions layout include_sidebar include_footer num_labels g =
      append_labels (nat num_labels)
        ([fst (generate_title_region layout g), generate_image_region] @ cs @ ss @ fs) g5"
    by (simp add: build_regions_def Let_def split_beta g1_def u_def g2_def cs_def g3_def
        ss_def g4_def fs_def g5_def)
  obtain ls where ls:
    "fst (append_labels (nat num_labels)
        ([fst (generate_title_region layout g), generate_image_region] @ cs @ ss @ fs) g5) =
      ([fst (generate_title_region layout g), generate_image_region] @ cs @ ss @ fs) @ ls"
    "length ls = nat num_labels"
    "\<forall>l \<in> set ls. \<exists>g'. l = fst (generate_label_region g')"
    using append_labels_shape by blast
  have c: "cs = [] \<or> (\<exists>g'. cs = [fst (generate_caption_region layout g')])"
    by (auto simp: cs_def)
  have s: "if include_sidebar then \<exists>g'. ss = [fst (generate_sidebar_region layout g')] else ss = []"
    by (auto simp: ss_def)
  have f: "if include_footer then \<exists>g'. fs = [fst (generate_footer_region layout g')] else fs = []"
    by (auto simp: fs_def)
  from eq ls(1) have "fst (build_regions layout include_sidebar include_footer num_labels g) =
        [fst (generate_title_region layout g), generate_image_region] @ cs @ ss @ fs @ ls"
    by simp
  with c s f ls(2,3) show ?thesis by blast
qed

subsection \<open>Defaults, dictionary and document\<close>

lemma random_defaults_flags:
  assumes "random_defaults name include_sidebar include_footer include_labels g = (n, s, f, k, g')"
  shows "(\<forall>b. include_sidebar = Some b \<longrightarrow> s = b)
       \<and> (\<forall>b. include_footer = Some b \<longrightarrow> f = b)
       \<and> 0 \<le> k \<and> k \<le> 3
       \<and> (include_labels = Some True \<longrightarrow> 1 \<le> k)
       \<and> (include_labels = Some False \<longrightarrow> k = 0)"
proof -
  define g1 where "g1 = (case name of
      None \<Rightarrow> snd (random_choice NOUNS (snd (random_choice ADJECTIVES g))) | Some n \<Rightarrow> g)"
  define g2 where "g2 = (case include_sidebar of None \<Rightarrow> snd (random_random g1) | Some b \<Rightarrow> g1)"
  define g3 where "g3 = (case include_footer of None \<Rightarrow> snd (random_random g2) | Some b \<Rightarrow> g2)"
  have s: "\<forall>b. include_sidebar = Some b \<longrightarrow> s = b"
    using assms by (auto simp: random_defaults_def split_beta Let_def)
  have f: "\<forall>b. include_footer = Some b \<longrightarrow> f = b"
    using assms by (auto simp: random_defaults_def split_beta Let_def)
  have k: "k = fst (case include_labels of None \<Rightarrow> randint 0 3 g3
                    | Some b \<Rightarrow> (if b then randint 1 3 g3 else (0, g3)))"
    using assms
    by (auto simp: random_defaults_def split_beta Let_def g1_def g2_def g3_def split: option.splits)
  have "0 \<le> k \<and> k \<le> 3 \<and> (include_labels = Some True \<longrightarrow> 1 \<le> k)
       \<and> (include_labels = Some False \<longrightarrow> k = 0)"
    using randint_range [of 0 3 g3] randint_range [of 1 3 g3]
    by (auto simp: k split: option.splits)
  with s f show ?thesis by blast
qed


lemma length_all_words: "length all_words = 73"
  by (simp add: all_words_def ADJECTIVES_def NOUNS_def VERBS_def TECH_WORDS_def)

lemma length_sample_loop: "length (fst (sample_loop pool m k g)) = k"
  by (induction k arbitrary: pool m g) (simp_all add: split_beta Let_def)

lemma random_dictionary_returns:
  assumes "15 \<le> k" "k \<le> 25"
  shows "random_dictionary k g = Inr (sample_loop all_words 73 (nat k) g)"
  using assms by (simp add: random_dictionary_def random_sample_def length_all_words)

lemma build_template_returns:
  "\<exists>doc g' k G. build_template name layout regions g = Inr (doc, g')
     \<and> regions_of doc = regions
     \<and> jget doc ''name'' = Some (JStr name)
     \<and> 15 \<le> k \<and> k \<le> 25
     \<and> dictionary_of doc = map JStr (fst (sample_loop all_words 73 k G))"
proof -
  define g1 where "g1 = snd (random_choice IMAGE_URLS g)"
  define sz where "sz = fst (randint 15 25 g1)"
  define g2 where "g2 = snd (randint 15 25 g1)"
  have sz: "15 \<le> sz \<and> sz \<le> 25"
    unfolding sz_def by (rule randint_range) simp
  then have d: "random_dictionary sz g2 = Inr (sample_loop all_words 73 (nat sz) g2)"
    by (simp add: random_dictionary_returns)
  obtain dictionary g3 where s: "sample_loop all_words 73 (nat sz) g2 = (dictionary, g3)"
    by (cases "sample_loop all_words 73 (nat sz) g2")
  obtain doc g' where r: "build_template name layout regions g = Inr (doc, g')"
    and doc: "regions_of doc = regions" "jget doc ''name'' = Some (JStr name)"
       "dictionary_of doc = map JStr dictionary"
    using d s
    by (simp add: build_template_def Let_def split_beta g1_def sz_def g2_def regions_of_def
        dictionary_of_def)
  have "dictionary = fst (sample_loop all_words 73 (nat sz) g2)" using s by simp
  moreover have "15 \<le> nat sz \<and> nat sz \<le> 25" using sz by linarith
  ultimately have "build_template name layout regions g = Inr (doc, g')
     \<and> regions_of doc = regions
     \<and> jget doc ''name'' = Some (JStr name)
     \<and> 15 \<le> nat sz \<and> nat sz \<le> 25
     \<and> dictionary_of doc = map JStr (fst (sample_loop all_words 73 (nat sz) g2))"
    using r doc by simp
  then show ?thesis by blast
qed

lemma generate_nara_template_returns:
  "\<exists>doc g' n s f k g1 layout g2.
      random_defaults name include_sidebar include_footer include_labels g = (n, s, f, k, g1)
    \<and> select_layout layout_preset g1 = (layout, g2)
    \<and> generate_nara_template name include_sidebar include_footer include_labels layout_preset g
        = Inr (doc, g')
    \<and> regions_of doc = fst (build_regions layout s f k g2)
    \<and> jget doc ''name'' = Some (JStr n)
    \<and> (\<exists>d G. 15 \<le> d \<and> d \<le> 25
          \<and> dictionary_of doc = map JStr (fst (sample_loop all_words 73 d G)))"
proof -
  obtain n s f k g1 where rd:
    "random_defaults name include_sidebar include_footer include_labels g = (n, s, f, k, g1)"
    by (metis prod_cases5)
  obtain layout g2 where sl: "select_layout layout_preset g1 = (layout, g2)"
    by (cases "select_layout layout_preset g1")
  obtain regions g3 where br: "build_regions layout s f k g2 = (regions, g3)"
    by (cases "build_regions layout s f k g2")
  have gen: "generate_nara_template name include_sidebar include_footer include_labels layout_preset g
      = build_template n layout regions g3"
    by (simp add: generate_nara_template_def rd sl br)
  from build_template_returns [of n layout regions g3] gen rd sl br show ?thesis
    by auto
qed

lemma map_kind_labels:
  "\<forall>l \<in> set ls. \<exists>g'. l = fst (generate_label_region g') \<Longrightarrow>
     map kind_of ls = replicate (length ls) Label"
  by (induction ls) (auto simp: kind_of_generated)

subsection \<open>The regions of a generated document\<close>

text \<open>
  C1. Every call of \<^verbatim>\<open>generate_nara_template\<close>, whatever its flags and whatever the random
  draws, returns a document whose region list is, in this order: one title, one image,
  at most one caption, at most one sidebar, at most one footer, then zero to three labels.
\<close>

theorem regions_in_order:
  "\<exists>doc g' c s f n.
      generate_nara_template name include_sidebar include_footer include_labels layout_preset g
        = Inr (doc, g')
    \<and> c \<le> 1 \<and> s \<le> 1 \<and> f \<le> 1 \<and> n \<le> 3
    \<and> map kind_of (regions_of doc) =
        [Title, Image] @ replicate c Caption @ replicate s Sidebar @ replicate f Footer
          @ replicate n Label"
proof -
  obtain doc g' nm sb ft k g1 layout g2 where
    rd: "random_defaults name include_sidebar include_footer include_labels g = (nm, sb, ft, k, g1)"
    and ret: "generate_nara_template name include_sidebar include_footer include_labels layout_preset g
        = Inr (doc, g')"
    and regs: "regions_of doc = fst (build_regions layout sb ft k g2)"
    using generate_nara_template_returns
      [of name include_sidebar include_footer include_labels g layout_preset]
    by blast
  obtain cs ss fs ls where
    shape: "fst (build_regions layout sb ft k g2) =
        [fst (generate_title_region layout g2), generate_image_region] @ cs @ ss @ fs @ ls"
    and cs: "cs = [] \<or> (\<exists>g'. cs = [fst (generate_caption_region layout g')])"
    and ss: "if sb then \<exists>g'. ss = [fst (generate_sidebar_region layout g')] else ss = []"
    and fs: "if ft then \<exists>g'. fs = [fst (generate_footer_region layout g')] else fs = []"
    and len: "length ls = nat k"
    and ls: "\<forall>l \<in> set ls. \<exists>g'. l = fst (generate_label_region g')"
    using build_regions_shape [of layout sb ft k g2] by blast
  have k: "nat k \<le> 3"
    using random_defaults_flags [OF rd] by linarith
  have c: "map kind_of cs = replicate (length cs) Caption \<and> length cs \<le> 1"
    using cs by (auto simp: kind_of_generated)
  have s: "map kind_of ss = replicate (length ss) Sidebar \<and> length ss \<le> 1"
    using ss by (cases sb) (auto simp: kind_of_generated)
  have f: "map kind_of fs = replicate (length fs) Footer \<and> length fs \<le> 1"
    using fs by (cases ft) (auto simp: kind_of_generated)
  have l: "map kind_of ls = replicate (nat k) Label"
    using map_kind_labels [OF ls] len by simp
  have "map kind_of (regions_of doc) =
      [Title, Image] @ replicate (length cs) Caption @ replicate (length ss) Sidebar
        @ replicate (length fs) Footer @ replicate (nat k) Label"
    using c s f l by (simp add: regs shape kind_of_generated)
  with ret c s f k show ?thesis by blast
qed

theorem regions_in_order_witness:
  "\<exists>doc g' c s f n.
      generate_nara_template (Some ''demo'') (Some True) None (Some True) (Some ''card'') [3, 1, 4, 1, 5]
        = Inr (doc, g')
    \<and> c \<le> 1 \<and> s \<le> 1 \<and> f \<le> 1 \<and> n \<le> 3
    \<and> map kind_of (regions_of doc) =
        [Title, Image] @ replicate c Caption @ replicate s Sidebar @ replicate f Footer
          @ replicate n Label"
  by (rule regions_in_order)

lemma flat_regions:
  "\<forall>r \<in> set rs. components_of r = [] \<Longrightarrow> concat (map (\<lambda>r. r # components_of r) rs) = rs"
  by (induction rs) simp_all

lemma generated_document_shape:
  "\<exists>doc g' layout G s f k cs ss fs ls.
      generate_nara_template name include_sidebar include_footer include_labels layout_preset g
        = Inr (doc, g')
    \<and> all_regions doc =
        [fst (generate_title_region layout G), generate_image_region] @ cs
          @ concat (map (\<lambda>r. r # components_of r) ss) @ fs @ ls
    \<and> (cs = [] \<or> (\<exists>g'. cs = [fst (generate_caption_region layout g')]))
    \<and> (if s then \<exists>g'. ss = [fst (generate_sidebar_region layout g')] else ss = [])
    \<and> (if f then \<exists>g'. fs = [fst (generate_footer_region layout g')] else fs = [])
    \<and> length ls = nat k
    \<and> (\<forall>l \<in> set ls. \<exists>g'. l = fst (generate_label_region g'))
    \<and> (\<forall>b. include_sidebar = Some b \<longrightarrow> s = b)
    \<and> (\<forall>b. include_footer = Some b \<longrightarrow> f = b)
    \<and> 0 \<le> k \<and> k \<le> 3
    \<and> (include_labels = Some True \<longrightarrow> 1 \<le> k)
    \<and> (include_labels = Some False \<longrightarrow> k = 0)"
proof -
  obtain doc g' nm sb ft k g1 layout g2 where
    rd: "random_defaults name include_sidebar include_footer include_labels g = (nm, sb, ft, k, g1)"
    and ret: "generate_nara_template name include_sidebar include_footer include_labels layout_preset g
        = Inr (doc, g')"
    and regs: "regions_of doc = fst (build_regions layout sb ft k g2)"
    using generate_nara_template_returns
      [of name include_sidebar include_footer include_labels g layout_preset]
    by blast
  obtain cs ss fs ls where
    shape: "fst (build_regions layout sb ft k g2) =
        [fst (generate_title_region layout g2), generate_image_region] @ cs @ ss @ fs @ ls"
    and cs: "cs = [] \<or> (\<exists>g'. cs = [fst (generate_caption_region layout g')])"
    and ss: "if sb then \<exists>g'. ss = [fst (generate_sidebar_region layout g')] else ss = []"
    and fs: "if ft then \<exists>g'. fs = [fst (generate_footer_region layout g')] else fs = []"
    and len: "length ls = nat k"
    and ls: "\<forall>l \<in> set ls. \<exists>g'. l = fst (generate_label_region g')"
    using build_regions_shape [of layout sb ft k g2] by blast
  have c: "concat (map (\<lambda>r. r # components_of r) cs) = cs"
    using cs by (intro flat_regions) (auto simp: caption_region_facts)
  have f: "concat (map (\<lambda>r. r # components_of r) fs) = fs"
    using fs by (intro flat_regions) (cases ft; auto simp: footer_region_facts)
  have l: "concat (map (\<lambda>r. r # components_of r) ls) = ls"
    using ls by (intro flat_regions) (auto simp: label_region_facts)
  have all: "all_regions doc =
        [fst (generate_title_region layout g2), generate_image_region] @ cs
          @ concat (map (\<lambda>r. r # components_of r) ss) @ fs @ ls"
    by (simp add: all_regions_def regs shape c f l title_region_facts image_region_facts)
  from ret all cs ss fs len ls random_defaults_flags [OF rd] show ?thesis
    by blast
qed


lemma not_label_generated:
  "\<not> is_label (fst (generate_title_region layout g))"
  "\<not> is_label generate_image_region"
  "\<not> is_label (fst (generate_caption_region layout g))"
  "\<not> is_label (fst (generate_sidebar_region layout g))"
  "\<not> is_label (fst (generate_footer_region layout g))"
  by (simp_all add: is_label_def startswith_def title_region_facts image_region_facts
      caption_region_facts sidebar_region_facts footer_region_facts)

lemma sidebar_children_not_labels:
  "filter is_label (components_of (fst (generate_sidebar_region layout g))) = []"
  by (simp add: generate_sidebar_region_def split_beta components_of_def is_label_def
      region_id_def startswith_def)

lemma filter_labels_all:
  "\<forall>l \<in> set ls. \<exists>g'. l = fst (generate_label_region g') \<Longrightarrow> filter is_label ls = ls"
  by (induction ls) (auto simp: label_region_facts)

lemma label_count:
  assumes "all_regions doc =
        [fst (generate_title_region layout G), generate_image_region] @ cs
          @ concat (map (\<lambda>r. r # components_of r) ss) @ fs @ ls"
    and "cs = [] \<or> (\<exists>g'. cs = [fst (generate_caption_region layout g')])"
    and "if s then \<exists>g'. ss = [fst (generate_sidebar_region layout g')] else ss = []"
    and "if f then \<exists>g'. fs = [fst (generate_footer_region layout g')] else fs = []"
    and "\<forall>l \<in> set ls. \<exists>g'. l = fst (generate_label_region g')"
  shows "filter is_label (all_regions doc) = ls"
proof -
  have c: "filter is_label cs = []"
    using assms(2) by (auto simp: not_label_generated)
  have sb: "filter is_label (concat (map (\<lambda>r. r # components_of r) ss)) = []"
    using assms(3) by (cases s) (auto simp: not_label_generated sidebar_children_not_labels)
  have ft: "filter is_label fs = []"
    using assms(4) by (cases f) (auto simp: not_label_generated)
  show ?thesis
    by (simp add: assms(1) c sb ft filter_labels_all [OF assms(5)] not_label_generated)
qed

text \<open>
  C6. With \<^verbatim>\<open>include_labels=False\<close> the returned document has no region, listed or nested,
  whose id starts with \<^verbatim>\<open>label-\<close>.
\<close>

theorem no_labels_when_excluded:
  "\<exists>doc g'.
      generate_nara_template name include_sidebar include_footer (Some False) layout_preset g
        = Inr (doc, g')
    \<and> filter is_label (all_regions doc) = []"
proof -
  obtain doc g' layout G s f k cs ss fs ls where
    ret: "generate_nara_template name include_sidebar include_footer (Some False) layout_preset g
        = Inr (doc, g')"
    and all: "all_regions doc =
        [fst (generate_title_region layout G), generate_image_region] @ cs
          @ concat (map (\<lambda>r. r # components_of r) ss) @ fs @ ls"
    and cs: "cs = [] \<or> (\<exists>g'. cs = [fst (generate_caption_region layout g')])"
    and ss: "if s then \<exists>g'. ss = [fst (generate_sidebar_region layout g')] else ss = []"
    and fs: "if f then \<exists>g'. fs = [fst (generate_footer_region layout g')] else fs = []"
    and len: "length ls = nat k"
    and ls: "\<forall>l \<in> set ls. \<exists>g'. l = fst (generate_label_region g')"
    and k: "Some False = Some False \<longrightarrow> k = 0"
    using generated_document_shape
      [of name include_sidebar include_footer "Some False" layout_preset g]
    by (elim exE conjE) (rule that, assumption+)
  have "ls = []" using len k by simp
  with label_count [OF all cs ss fs ls] ret show ?thesis by blast
qed

theorem no_labels_when_excluded_witness:
  "\<exists>doc g'.
      generate_nara_template None (Some True) (Some True) (Some False) (Some ''banner'') [2, 7, 1, 8]
        = Inr (doc, g')
    \<and> filter is_label (all_regions doc) = []"
  by (rule no_labels_when_excluded)

text \<open>
  C9. With \<^verbatim>\<open>include_labels=True\<close> the returned document has at least one and at most three
  regions whose id starts with \<^verbatim>\<open>label-\<close>.
\<close>

theorem labels_when_forced:
  "\<exists>doc g'.
      generate_nara_template name include_sidebar include_footer (Some True) layout_preset g
        = Inr (doc, g')
    \<and> 1 \<le> length (filter is_label (all_regions doc))
    \<and> length (filter is_label (all_regions doc)) \<le> 3"
proof -
  obtain doc g' layout G s f k cs ss fs ls where
    ret: "generate_nara_template name include_sidebar include_footer (Some True) layout_preset g
        = Inr (doc, g')"
    and all: "all_regions doc =
        [fst (generate_title_region layout G), generate_image_region] @ cs
          @ concat (map (\<lambda>r. r # components_of r) ss) @ fs @ ls"
    and cs: "cs = [] \<or> (\<exists>g'. cs = [fst (generate_caption_region layout g')])"
    and ss: "if s then \<exists>g'. ss = [fst (generate_sidebar_region layout g')] else ss = []"
    and fs: "if f then \<exists>g'. fs = [fst (generate_footer_region layout g')] else fs = []"
    and len: "length ls = nat k"
    and ls: "\<forall>l \<in> set ls. \<exists>g'. l = fst (generate_label_region g')"
    and k: "k \<le> 3" "Some True = Some True \<longrightarrow> 1 \<le> k"
    using generated_document_shape
      [of name include_sidebar include_footer "Some True" layout_preset g]
    by (elim exE conjE) (rule that, assumption+)
  have "1 \<le> length ls \<and> length ls \<le> 3" using len k by auto
  with label_count [OF all cs ss fs ls] ret show ?thesis by auto
qed

theorem labels_when_forced_witness:
  "\<exists>doc g'.
      generate_nara_template (Some ''demo'') None None (Some True) None [5, 2 ^ 52 + 1, 2, 0, 9]
        = Inr (doc, g')
    \<and> 1 \<le> length (filter is_label (all_regions doc))
    \<and> length (filter is_label (all_regions doc)) \<le> 3"
  by (rule labels_when_forced)

text \<open>
  C5. With \<^verbatim>\<open>include_sidebar=True\<close> the returned document has exactly one region of type
  \<^verbatim>\<open>composite\<close> and exactly one region with id \<^verbatim>\<open>sidebar\<close>, they are the same region, and
  it has exactly three children: the header, the divider and the body.
\<close>

theorem forced_sidebar_once:
  "\<exists>doc g' sidebar.
      generate_nara_template name (Some True) include_footer include_labels layout_preset g
        = Inr (doc, g')
    \<and> filter (\<lambda>r. region_type r = Some ''composite'') (all_regions doc) = [sidebar]
    \<and> filter (\<lambda>r. region_id r = Some ''sidebar'') (all_regions doc) = [sidebar]
    \<and> length (components_of sidebar) = 3
    \<and> map region_id (components_of sidebar) =
        [Some ''sidebar-header'', Some ''sidebar-divider'', Some ''sidebar-body'']"
proof -
  obtain doc g' layout G s f k cs ss fs ls where
    ret: "generate_nara_template name (Some True) include_footer include_labels layout_preset g
        = Inr (doc, g')"
    and all: "all_regions doc =
        [fst (generate_title_region layout G), generate_image_region] @ cs
          @ concat (map (\<lambda>r. r # components_of r) ss) @ fs @ ls"
    and cs: "cs = [] \<or> (\<exists>g'. cs = [fst (generate_caption_region layout g')])"
    and ss: "if s then \<exists>g'. ss = [fst (generate_sidebar_region layout g')] else ss = []"
    and fs: "if f then \<exists>g'. fs = [fst (generate_footer_region layout g')] else fs = []"
    and ls: "\<forall>l \<in> set ls. \<exists>g'. l = fst (generate_label_region g')"
    and s: "\<forall>b. Some True = Some b \<longrightarrow> s = b"
    using generated_document_shape
      [of name "Some True" include_footer include_labels layout_preset g]
    by (elim exE conjE) (rule that, assumption+)
  from s have "s = True"
    by blast
  with ss obtain gs where "ss = [fst (generate_sidebar_region layout gs)]"
    by auto
  then obtain sidebar where ss1: "ss = [sidebar]"
    and sb: "sidebar = fst (generate_sidebar_region layout gs)"
    by simp
  let ?T = "\<lambda>r. region_type r = Some ''composite''"
  let ?I = "\<lambda>r. region_id r = Some ''sidebar''"
  have lsT: "filter ?T ls = []" and lsI: "filter ?I ls = []"
    using ls by (auto simp: filter_empty_conv label_region_facts)
  have csT: "filter ?T cs = []" and csI: "filter ?I cs = []"
    using cs by (auto simp: caption_region_facts)
  have fsT: "filter ?T fs = []"
    using fs by (cases f) (auto simp: footer_region_facts)
  have fsI: "filter ?I fs = []"
    using fs by (cases f) (auto simp: footer_region_facts)
  have kT: "filter ?T (components_of sidebar) = []"
    and kI: "filter ?I (components_of sidebar) = []"
    by (simp_all add: sb generate_sidebar_region_def split_beta components_of_def
        region_type_def region_id_def)
  have sT: "?T sidebar" and sI: "?I sidebar"
    by (simp_all add: sb sidebar_region_facts)
  have T: "filter ?T (all_regions doc) = [sidebar]"
    by (simp add: all ss1 csT fsT lsT kT sT title_region_facts image_region_facts)
  have I: "filter ?I (all_regions doc) = [sidebar]"
    by (simp add: all ss1 csI fsI lsI kI sI title_region_facts image_region_facts)
  have ids: "map region_id (components_of sidebar) =
      [Some ''sidebar-header'', Some ''sidebar-divider'', Some ''sidebar-body'']"
    by (simp add: sb sidebar_region_facts)
  have "length (map region_id (components_of sidebar)) = 3"
    by (simp only: ids) simp
  then have "length (components_of sidebar) = 3"
    by simp
  with ret T I ids have
    "generate_nara_template name (Some True) include_footer include_labels layout_preset g
        = Inr (doc, g')
    \<and> filter ?T (all_regions doc) = [sidebar]
    \<and> filter ?I (all_regions doc) = [sidebar]
    \<and> length (components_of sidebar) = 3
    \<and> map region_id (components_of sidebar) =
        [Some ''sidebar-header'', Some ''sidebar-divider'', Some ''sidebar-body'']"
    by simp
  then show ?thesis by (intro exI)
qed

theorem forced_sidebar_once_witness:
  "\<exists>doc g' sidebar.
      generate_nara_template None (Some True) None None None [7, 11, 2 ^ 52, 3]
        = Inr (doc, g')
    \<and> filter (\<lambda>r. region_type r = Some ''composite'') (all_regions doc) = [sidebar]
    \<and> filter (\<lambda>r. region_id r = Some ''sidebar'') (all_regions doc) = [sidebar]
    \<and> length (components_of sidebar) = 3
    \<and> map region_id (components_of sidebar) =
        [Some ''sidebar-header'', Some ''sidebar-divider'', Some ''sidebar-body'']"
  by (rule forced_sidebar_once)

subsection \<open>The sidebar and the layout selector\<close>

text \<open>
  C7. Every sidebar region that \<^verbatim>\<open>generate_sidebar_region\<close> returns has the three children
  header, divider and body; one width between 25 and 35 is both the repeat count of the
  divider and the wrap width of the body; the word count of the body is between 15 and 40;
  the text of the header is one of NOTES, META, INFO, DATA, CONTEXT.
\<close>

theorem sidebar_width_consistent:
  "\<exists>w wc h header divider body.
      components_of (fst (generate_sidebar_region layout g)) = [header, divider, body]
    \<and> 25 \<le> w \<and> w \<le> 35
    \<and> jpath divider [''content'', ''count''] = Some (JInt w)
    \<and> jpath body [''layout'', ''width''] = Some (JInt w)
    \<and> jpath body [''layout'', ''wrap''] = Some (JBool True)
    \<and> jpath body [''content'', ''wordCount''] = Some (JInt wc)
    \<and> 15 \<le> wc \<and> wc \<le> 40
    \<and> jpath header [''content'', ''static''] = Some (JStr h)
    \<and> h \<in> set [''NOTES'', ''META'', ''INFO'', ''DATA'', ''CONTEXT'']"
proof -
  define w where "w = fst (randint 25 35 g)"
  define g1 where "g1 = snd (randint 25 35 g)"
  define h where "h = fst (random_choice [''NOTES'', ''META'', ''INFO'', ''DATA'', ''CONTEXT''] g1)"
  define g2 where "g2 = snd (random_choice [''NOTES'', ''META'', ''INFO'', ''DATA'', ''CONTEXT''] g1)"
  define wc where "wc = fst (randint 15 40 g2)"
  obtain header divider body where
    kids: "components_of (fst (generate_sidebar_region layout g)) = [header, divider, body]"
    and d: "jpath divider [''content'', ''count''] = Some (JInt w)"
    and b: "jpath body [''layout'', ''width''] = Some (JInt w)"
       "jpath body [''layout'', ''wrap''] = Some (JBool True)"
       "jpath body [''content'', ''wordCount''] = Some (JInt wc)"
    and hd: "jpath header [''content'', ''static''] = Some (JStr h)"
    by (simp add: generate_sidebar_region_def split_beta components_of_def w_def g1_def h_def
        g2_def wc_def)
  have w: "25 \<le> w \<and> w \<le> 35"
    unfolding w_def by (rule randint_range) simp
  have wc: "15 \<le> wc \<and> wc \<le> 40"
    unfolding wc_def by (rule randint_range) simp
  have h: "h \<in> set [''NOTES'', ''META'', ''INFO'', ''DATA'', ''CONTEXT'']"
    unfolding h_def by (rule random_choice_in) simp
  from kids d b hd w wc h show ?thesis
    by blast
qed

theorem sidebar_width_consistent_witness:
  "components_of (fst (generate_sidebar_region (LAYOUT_PRESETS ! 1) [3, 6, 30])) =
     [JDict [
        (''id'', JStr ''sidebar-header''),
        (''type'', JStr ''text''),
        (''position'', JDict [(''x'', JStr ''sidebarX''), (''y'', JStr ''sidebarStartY'')]),
        (''content'', JDict [(''static'', JStr ''META'')])],
      JDict [
        (''id'', JStr ''sidebar-divider''),
        (''type'', JStr ''text''),
        (''position'', JDict [(''x'', JStr ''sidebarX''), (''y'', JStr ''sidebarStartY + 1'')]),
        (''content'', JDict [
           (''repeat'', JStr [CHR 0xE2, CHR 0x94, CHR 0x80]),
           (''count'', JInt 28)])],
      JDict [
        (''id'', JStr ''sidebar-body''),
        (''type'', JStr ''text''),
        (''position'', JDict [(''x'', JStr ''sidebarX''), (''y'', JStr ''sidebarStartY + 2'')]),
        (''content'', JDict [
           (''generator'', JStr ''bogus''),
           (''wordCount'', JInt 19)]),
        (''layout'', JDict [
           (''wrap'', JBool True),
           (''width'', JInt 28)])]]
   \<and> (\<exists>w wc h header divider body.
      components_of (fst (generate_sidebar_region (LAYOUT_PRESETS ! 1) [3, 6, 30])) = [header, divider, body]
    \<and> 25 \<le> w \<and> w \<le> 35
    \<and> jpath divider [''content'', ''count''] = Some (JInt w)
    \<and> jpath body [''layout'', ''width''] = Some (JInt w)
    \<and> jpath body [''layout'', ''wrap''] = Some (JBool True)
    \<and> jpath body [''content'', ''wordCount''] = Some (JInt wc)
    \<and> 15 \<le> wc \<and> wc \<le> 40
    \<and> jpath header [''content'', ''static''] = Some (JStr h)
    \<and> h \<in> set [''NOTES'', ''META'', ''INFO'', ''DATA'', ''CONTEXT''])"
proof
  show "components_of (fst (generate_sidebar_region (LAYOUT_PRESETS ! 1) [3, 6, 30])) = [JDict [
        (''id'', JStr ''sidebar-header''),
        (''type'', JStr ''text''),
        (''position'', JDict [(''x'', JStr ''sidebarX''), (''y'', JStr ''sidebarStartY'')]),
        (''content'', JDict [(''static'', JStr ''META'')])],
      JDict [
        (''id'', JStr ''sidebar-divider''),
        (''type'', JStr ''text''),
        (''position'', JDict [(''x'', JStr ''sidebarX''), (''y'', JStr ''sidebarStartY + 1'')]),
        (''content'', JDict [
           (''repeat'', JStr [CHR 0xE2, CHR 0x94, CHR 0x80]),
           (''count'', JInt 28)])],
      JDict [
        (''id'', JStr ''sidebar-body''),
        (''type'', JStr ''text''),
        (''position'', JDict [(''x'', JStr ''sidebarX''), (''y'', JStr ''sidebarStartY + 2'')]),
        (''content'', JDict [
           (''generator'', JStr ''bogus''),
           (''wordCount'', JInt 19)]),
        (''layout'', JDict [
           (''wrap'', JBool True),
           (''width'', JInt 28)])]]"
    by (simp add: generate_sidebar_region_def tape_simps components_of_def)
qed (rule sidebar_width_consistent)

text \<open>
  C3. The layout selector returns the preset of the given name when the name is one of
  poster, card, banner, postcard; it returns the first preset, poster, for any other name
  (it is a total function: nothing is raised); without a name it returns one of the four
  presets, and each of the four is returned for some draw.
\<close>

theorem layout_selector_contract:
  "(p \<in> set [''poster'', ''card'', ''banner'', ''postcard''] \<longrightarrow>
      fst (select_layout (Some p) g) \<in> set LAYOUT_PRESETS
      \<and> preset_name (fst (select_layout (Some p) g)) = p)
   \<and> (p \<notin> set [''poster'', ''card'', ''banner'', ''postcard''] \<longrightarrow>
      fst (select_layout (Some p) g) = LAYOUT_PRESETS ! 0
      \<and> preset_name (fst (select_layout (Some p) g)) = ''poster'')
   \<and> fst (select_layout None g) \<in> set LAYOUT_PRESETS
   \<and> (\<forall>l \<in> set LAYOUT_PRESETS. \<exists>g0. fst (select_layout None g0) = l)
   \<and> map preset_name LAYOUT_PRESETS = [''poster'', ''card'', ''banner'', ''postcard'']"
proof -
  have known: "p \<in> set [''poster'', ''card'', ''banner'', ''postcard''] \<longrightarrow>
      fst (select_layout (Some p) g) \<in> set LAYOUT_PRESETS
      \<and> preset_name (fst (select_layout (Some p) g)) = p"
    by (auto simp: select_layout_def LAYOUT_PRESETS_def)
  have unknown: "p \<notin> set [''poster'', ''card'', ''banner'', ''postcard''] \<longrightarrow>
      fst (select_layout (Some p) g) = LAYOUT_PRESETS ! 0
      \<and> preset_name (fst (select_layout (Some p) g)) = ''poster''"
    by (auto simp: select_layout_def LAYOUT_PRESETS_def)
  have "LAYOUT_PRESETS \<noteq> []"
    by (simp add: LAYOUT_PRESETS_def)
  then have random: "fst (select_layout None g) \<in> set LAYOUT_PRESETS"
    by (simp add: select_layout_def random_choice_in)
  have every: "\<forall>l \<in> set LAYOUT_PRESETS. \<exists>g0. fst (select_layout None g0) = l"
  proof
    fix l assume "l \<in> set LAYOUT_PRESETS"
    then obtain i where i: "i < length LAYOUT_PRESETS" "l = LAYOUT_PRESETS ! i"
      by (auto simp: in_set_conv_nth)
    then have "fst (select_layout None [i]) = l"
      by (simp add: select_layout_def tape_simps)
    then show "\<exists>g0. fst (select_layout None g0) = l" ..
  qed
  have names: "map preset_name LAYOUT_PRESETS = [''poster'', ''card'', ''banner'', ''postcard'']"
    by (simp add: LAYOUT_PRESETS_def)
  from known unknown random every names show ?thesis by blast
qed

theorem layout_selector_contract_witness:
  "''banner'' \<in> set [''poster'', ''card'', ''banner'', ''postcard'']
   \<and> preset_name (fst (select_layout (Some ''banner'') [5])) = ''banner''
   \<and> imageWidth (fst (select_layout (Some ''banner'') [5])) = 80
   \<and> ''billboard'' \<notin> set [''poster'', ''card'', ''banner'', ''postcard'']
   \<and> fst (select_layout (Some ''billboard'') [5]) = LAYOUT_PRESETS ! 0
   \<and> preset_name (fst (select_layout (Some ''billboard'') [5])) = ''poster''
   \<and> fst (select_layout None [5]) = LAYOUT_PRESETS ! 1
   \<and> LAYOUT_PRESETS ! 1 \<in> set LAYOUT_PRESETS
   \<and> (\<exists>g0. fst (select_layout None g0) = LAYOUT_PRESETS ! 1)"
proof -
  have a: "''banner'' \<in> set [''poster'', ''card'', ''banner'', ''postcard'']"
    and b: "''billboard'' \<notin> set [''poster'', ''card'', ''banner'', ''postcard'']"
    and c: "LAYOUT_PRESETS ! 1 \<in> set LAYOUT_PRESETS"
    by (simp_all add: LAYOUT_PRESETS_def)
  have w: "imageWidth (fst (select_layout (Some ''banner'') [5])) = 80"
    and r: "fst (select_layout None [5]) = LAYOUT_PRESETS ! 1"
    by (simp_all add: select_layout_def LAYOUT_PRESETS_def tape_simps)
  from a b c w r
    layout_selector_contract [of "''banner''" "[5]"]
    layout_selector_contract [of "''billboard''" "[5]"]
  show ?thesis by blast
qed

subsection \<open>Evaluating a call on a given tape\<close>

lemma build_template_result:
  "\<not> isl (build_template name layout regions g)"
  "regions_of (fst (projr (build_template name layout regions g))) = regions"
  "jget (fst (projr (build_template name layout regions g))) ''name'' = Some (JStr name)"
  "dictionary_of (fst (projr (build_template name layout regions g))) =
     map JStr (fst (sample_loop all_words 73
       (nat (fst (randint 15 25 (snd (random_choice IMAGE_URLS g)))))
       (snd (randint 15 25 (snd (random_choice IMAGE_URLS g))))))"
proof -
  define g1 where "g1 = snd (random_choice IMAGE_URLS g)"
  define sz where "sz = fst (randint 15 25 g1)"
  define g2 where "g2 = snd (randint 15 25 g1)"
  have sz: "15 \<le> sz \<and> sz \<le> 25"
    unfolding sz_def by (rule randint_range) simp
  then have d: "random_dictionary sz g2 = Inr (sample_loop all_words 73 (nat sz) g2)"
    by (simp add: random_dictionary_returns)
  show "\<not> isl (build_template name layout regions g)"
    using d
    by (simp add: build_template_def Let_def split_beta g1_def sz_def g2_def)
  show "regions_of (fst (projr (build_template name layout regions g))) = regions"
    using d
    by (simp add: build_template_def Let_def split_beta g1_def sz_def g2_def regions_of_def)
  show "jget (fst (projr (build_template name layout regions g))) ''name'' = Some (JStr name)"
    using d
    by (simp add: build_template_def Let_def split_beta g1_def sz_def g2_def)
  show "dictionary_of (fst (projr (build_template name layout regions g))) =
     map JStr (fst (sample_loop all_words 73
       (nat (fst (randint 15 25 (snd (random_choice IMAGE_URLS g)))))
       (snd (randint 15 25 (snd (random_choice IMAGE_URLS g))))))"
    using d
    by (simp add: build_template_def Let_def split_beta g1_def sz_def g2_def dictionary_of_def)
qed

lemma generated_document_parts:
  assumes "random_defaults name include_sidebar include_footer include_labels g = (n, s, f, k, g1)"
    and "select_layout layout_preset g1 = (layout, g2)"
  shows "\<not> isl (generate_nara_template name include_sidebar include_footer include_labels
            layout_preset g)"
    and "regions_of (fst (projr (generate_nara_template name include_sidebar include_footer
            include_labels layout_preset g))) = fst (build_regions layout s f k g2)"
    and "jget (fst (projr (generate_nara_template name include_sidebar include_footer
            include_labels layout_preset g))) ''name'' = Some (JStr n)"
    and "dictionary_of (fst (projr (generate_nara_template name include_sidebar include_footer
            include_labels layout_preset g))) =
          map JStr (fst (sample_loop all_words 73
            (nat (fst (randint 15 25 (snd (random_choice IMAGE_URLS
               (snd (build_regions layout s f k g2)))))))
            (snd (randint 15 25 (snd (random_choice IMAGE_URLS
               (snd (build_regions layout s f k g2))))))))"
proof -
  have gen: "generate_nara_template name include_sidebar include_footer include_labels
      layout_preset g =
      build_template n layout (fst (build_regions layout s f k g2))
        (snd (build_regions layout s f k g2))"
    by (simp add: generate_nara_template_def assms split_beta)
  show "\<not> isl (generate_nara_template name include_sidebar include_footer include_labels
            layout_preset g)"
    and "regions_of (fst (projr (generate_nara_template name include_sidebar include_footer
            include_labels layout_preset g))) = fst (build_regions layout s f k g2)"
    and "jget (fst (projr (generate_nara_template name include_sidebar include_footer
            include_labels layout_preset g))) ''name'' = Some (JStr n)"
    and "dictionary_of (fst (projr (generate_nara_template name include_sidebar include_footer
            include_labels layout_preset g))) =
          map JStr (fst (sample_loop all_words 73
            (nat (fst (randint 15 25 (snd (random_choice IMAGE_URLS
               (snd (build_regions layout s f k g2)))))))
            (snd (randint 15 25 (snd (random_choice IMAGE_URLS
               (snd (build_regions layout s f k g2))))))))"
    by (simp_all only: gen build_template_result not_False_eq_True)
qed

lemma sample_loop_first_two:
  "take 2 (fst (sample_loop pool m (Suc (Suc k)) (a # b # g))) =
     [pool ! (a mod m), pool[a mod m := pool ! (m - 1)] ! (b mod (m - 1))]"
  by (simp add: split_beta Let_def tape_simps)

lemmas title_run_simps =
  generate_title_region_def random_title_def tape_simps title_words_numeral
  ADJECTIVES_def NOUNS_def float_0_3_def str_int_def str_nat.simps digit_char_def
  upper_def upper_char_def

lemmas label_run_simps =
  generate_label_region_def random_title_def tape_simps title_words_numeral
  ADJECTIVES_def NOUNS_def str_int_def str_nat.simps digit_char_def upper_def upper_char_def

subsection \<open>Region ids\<close>

lemma sidebar_ids:
  "map region_id (fst (generate_sidebar_region layout g) # components_of (fst (generate_sidebar_region layout g))) =
     [Some ''sidebar'', Some ''sidebar-header'', Some ''sidebar-divider'', Some ''sidebar-body'']"
  by (simp add: sidebar_region_facts)

lemma label_id_differs:
  assumes "is_label l" "\<not> is_label r"
  shows "region_id r \<noteq> region_id l"
  using assms by (auto simp: is_label_def)

text \<open>
  C2, as the code has it. The ids of the regions that are not labels (title, main-image,
  caption, sidebar with its three children, footer) are pairwise distinct and no label has
  one of them, so the ids of a document are pairwise distinct exactly when the ids of its
  labels are. A label id is \<^verbatim>\<open>label-\<close> and a number drawn from 1000 to 9999, and nothing keeps
  two labels from drawing the same number.
\<close>

theorem ids_distinct_up_to_labels:
  "\<exists>doc g'.
      generate_nara_template name include_sidebar include_footer include_labels layout_preset g
        = Inr (doc, g')
    \<and> distinct (map region_id (filter (\<lambda>r. \<not> is_label r) (all_regions doc)))
    \<and> (distinct (map region_id (all_regions doc))
         = distinct (map region_id (filter is_label (all_regions doc))))"
proof -
  obtain doc g' layout G s f k cs ss fs ls where
    ret: "generate_nara_template name include_sidebar include_footer include_labels layout_preset g
        = Inr (doc, g')"
    and all: "all_regions doc =
        [fst (generate_title_region layout G), generate_image_region] @ cs
          @ concat (map (\<lambda>r. r # components_of r) ss) @ fs @ ls"
    and cs: "cs = [] \<or> (\<exists>g'. cs = [fst (generate_caption_region layout g')])"
    and ss: "if s then \<exists>g'. ss = [fst (generate_sidebar_region layout g')] else ss = []"
    and fs: "if f then \<exists>g'. fs = [fst (generate_footer_region layout g')] else fs = []"
    and ls: "\<forall>l \<in> set ls. \<exists>g'. l = fst (generate_label_region g')"
    using generated_document_shape
      [of name include_sidebar include_footer include_labels layout_preset g]
    by (elim exE conjE) (rule that, assumption+)
  define fixed where "fixed = [fst (generate_title_region layout G), generate_image_region] @ cs
          @ concat (map (\<lambda>r. r # components_of r) ss) @ fs"
  have all': "all_regions doc = fixed @ ls"
    by (simp add: all fixed_def)
  have cs_ids: "map region_id cs = [] \<or> map region_id cs = [Some ''caption'']"
    using cs by (auto simp: caption_region_facts)
  have ss_ids: "map region_id (concat (map (\<lambda>r. r # components_of r) ss)) = []
      \<or> map region_id (concat (map (\<lambda>r. r # components_of r) ss)) =
           [Some ''sidebar'', Some ''sidebar-header'', Some ''sidebar-divider'', Some ''sidebar-body'']"
    using ss by (cases s) (auto simp: sidebar_region_facts)
  have fs_ids: "map region_id fs = [] \<or> map region_id fs = [Some ''footer'']"
    using fs by (cases f) (auto simp: footer_region_facts)
  have fixed_ids: "map region_id fixed = [Some ''title'', Some ''main-image'']
      @ map region_id cs @ map region_id (concat (map (\<lambda>r. r # components_of r) ss))
      @ map region_id fs"
    by (simp add: fixed_def title_region_facts image_region_facts)
  have fixed_distinct: "distinct (map region_id fixed)"
    using cs_ids ss_ids fs_ids unfolding fixed_ids by (elim disjE) simp_all
  have c: "filter is_label cs = []"
    using cs by (auto simp: not_label_generated)
  have sb: "filter is_label (concat (map (\<lambda>r. r # components_of r) ss)) = []"
    using ss by (cases s) (auto simp: not_label_generated sidebar_children_not_labels)
  have ft: "filter is_label fs = []"
    using fs by (cases f) (auto simp: not_label_generated)
  have fixed_none: "filter is_label fixed = []"
    by (simp add: fixed_def c sb ft not_label_generated)
  have labels: "filter is_label ls = ls"
    using ls by (rule filter_labels_all)
  have others: "filter (\<lambda>r. \<not> is_label r) (all_regions doc) = fixed"
    using fixed_none labels
    by (simp add: all' filter_empty_conv filter_id_conv)
  have only: "filter is_label (all_regions doc) = ls"
    by (simp add: all' fixed_none labels)
  have apart: "set (map region_id fixed) \<inter> set (map region_id ls) = {}"
  proof -
    have "region_id r \<noteq> region_id l" if "r \<in> set fixed" "l \<in> set ls" for r l
    proof (rule label_id_differs)
      show "is_label l"
        using labels that(2) by (metis filter_id_conv)
      show "\<not> is_label r"
        using fixed_none that(1) by (simp add: filter_empty_conv)
    qed
    then show ?thesis by auto
  qed
  have "distinct (map region_id (all_regions doc)) = distinct (map region_id ls)"
    using fixed_distinct apart by (simp add: all')
  with ret others only fixed_distinct show ?thesis
    by simp
qed

theorem ids_distinct_up_to_labels_witness:
  "\<not> isl (generate_nara_template (Some ''demo'') (Some False) (Some False) (Some True)
        (Some ''poster'') [1, 0, 0, 0, 0, 0, 0, 0, 0, 5, 0, 0, 0, 0, 7])
   \<and> map region_id (filter is_label (all_regions (fst (projr (generate_nara_template
        (Some ''demo'') (Some False) (Some False) (Some True) (Some ''poster'')
        [1, 0, 0, 0, 0, 0, 0, 0, 0, 5, 0, 0, 0, 0, 7]))))) =
       [Some ''label-1005'', Some ''label-1007'']
   \<and> distinct (map region_id (all_regions (fst (projr (generate_nara_template (Some ''demo'')
        (Some False) (Some False) (Some True) (Some ''poster'')
        [1, 0, 0, 0, 0, 0, 0, 0, 0, 5, 0, 0, 0, 0, 7])))))"
proof -
  let ?tape = "[1, 0, 0, 0, 0, 0, 0, 0, 0, 5, 0, 0, 0, 0, 7] :: rng"
  let ?gen = "generate_nara_template (Some ''demo'') (Some False) (Some False) (Some True)
      (Some ''poster'') ?tape"
  have rd: "random_defaults (Some ''demo'') (Some False) (Some False) (Some True) ?tape =
      (''demo'', False, False, 2, [0, 0, 0, 0, 0, 0, 0, 0, 5, 0, 0, 0, 0, 7])"
    by (simp add: random_defaults_def tape_simps)
  have sl: "select_layout (Some ''poster'') [0, 0, 0, 0, 0, 0, 0, 0, 5, 0, 0, 0, 0, 7] =
      (LAYOUT_PRESETS ! 0, [0, 0, 0, 0, 0, 0, 0, 0, 5, 0, 0, 0, 0, 7])"
    by (simp add: select_layout_def LAYOUT_PRESETS_def)
  have returns: "\<not> isl ?gen"
    by (rule generated_document_parts(1) [OF rd sl])
  have "map region_id (filter is_label (all_regions (fst (projr ?gen)))) =
      map region_id (filter is_label (concat (map (\<lambda>r. r # components_of r)
        (fst (build_regions (LAYOUT_PRESETS ! 0) False False 2
           [0, 0, 0, 0, 0, 0, 0, 0, 5, 0, 0, 0, 0, 7])))))"
    by (simp only: all_regions_def generated_document_parts(2) [OF rd sl])
  also have "\<dots> = [Some ''label-1005'', Some ''label-1007'']"
    by (simp add: build_regions_def title_run_simps label_run_simps float_0_2_def
        generate_image_region_def append_labels_numeral region_id_def components_of_def
        is_label_def startswith_def)
  finally have labels: "map region_id (filter is_label (all_regions (fst (projr ?gen)))) =
      [Some ''label-1005'', Some ''label-1007'']" .
  obtain doc g' where ret: "?gen = Inr (doc, g')"
    and iff: "distinct (map region_id (all_regions doc))
         = distinct (map region_id (filter is_label (all_regions doc)))"
    using ids_distinct_up_to_labels
      [of "Some ''demo''" "Some False" "Some False" "Some True" "Some ''poster''" ?tape]
    by blast
  have "doc = fst (projr ?gen)"
    unfolding ret by simp
  with iff labels have "distinct (map region_id (all_regions (fst (projr ?gen))))"
    by simp
  with returns labels show ?thesis by blast
qed

text \<open>
  C2, as stated, fails: with \<^verbatim>\<open>include_labels=True\<close>, two labels, and the same number drawn for
  both, the document has the id \<^verbatim>\<open>label-1000\<close> twice.
\<close>

theorem label_ids_collide:
  "\<not> isl (generate_nara_template (Some ''demo'') (Some False) (Some False) (Some True)
        (Some ''poster'') [1])
   \<and> map region_id (all_regions (fst (projr (generate_nara_template (Some ''demo'') (Some False)
        (Some False) (Some True) (Some ''poster'') [1])))) =
       [Some ''title'', Some ''main-image'', Some ''label-1000'', Some ''label-1000'']
   \<and> \<not> distinct (map region_id (all_regions (fst (projr (generate_nara_template (Some ''demo'')
        (Some False) (Some False) (Some True) (Some ''poster'') [1])))))"
proof -
  let ?doc = "fst (projr (generate_nara_template (Some ''demo'') (Some False) (Some False)
      (Some True) (Some ''poster'') [1]))"
  have rd: "random_defaults (Some ''demo'') (Some False) (Some False) (Some True) [1] =
      (''demo'', False, False, 2, [])"
    by (simp add: random_defaults_def tape_simps)
  have sl: "select_layout (Some ''poster'') [] = (LAYOUT_PRESETS ! 0, [])"
    by (simp add: select_layout_def LAYOUT_PRESETS_def)
  have returns: "\<not> isl (generate_nara_template (Some ''demo'') (Some False) (Some False)
      (Some True) (Some ''poster'') [1])"
    by (rule generated_document_parts(1) [OF rd sl])
  have "map region_id (all_regions ?doc) =
      map region_id (concat (map (\<lambda>r. r # components_of r)
        (fst (build_regions (LAYOUT_PRESETS ! 0) False False 2 []))))"
    by (simp only: all_regions_def generated_document_parts(2) [OF rd sl])
  also have "\<dots> = [Some ''title'', Some ''main-image'', Some ''label-1000'', Some ''label-1000'']"
    by (simp add: build_regions_def title_run_simps label_run_simps float_0_2_def
        generate_image_region_def append_labels_numeral region_id_def components_of_def)
  finally have ids: "map region_id (all_regions ?doc) =
      [Some ''title'', Some ''main-image'', Some ''label-1000'', Some ''label-1000'']" .
  then have "\<not> distinct (map region_id (all_regions ?doc))"
    by simp
  with returns ids show ?thesis by blast
qed

subsection \<open>The dictionary\<close>

lemma sample_loop_mset:
  "k \<le> m \<Longrightarrow> m \<le> length pool \<Longrightarrow> mset (fst (sample_loop pool m k g)) \<subseteq># mset (take m pool)"
proof (induction k arbitrary: pool m g)
  case 0
  then show ?case by simp
next
  case (Suc k)
  define j where "j = fst (randbelow m g)"
  define g1 where "g1 = snd (randbelow m g)"
  define pool' where "pool' = pool[j := pool ! (m - 1)]"
  from Suc.prems have m: "0 < m" "m - 1 < length pool" by simp_all
  then have j: "j < m" unfolding j_def by (simp add: randbelow_less)
  have unfold: "fst (sample_loop pool m (Suc k) g) = pool ! j # fst (sample_loop pool' (m - 1) k g1)"
    by (simp add: split_beta Let_def j_def g1_def pool'_def)
  have IH: "mset (fst (sample_loop pool' (m - 1) k g1)) \<subseteq># mset (take (m - 1) pool')"
    using Suc.prems by (intro Suc.IH) (simp_all add: pool'_def)
  have split: "take m pool = take (m - 1) pool @ [pool ! (m - 1)]"
    using m by (metis Suc_pred' take_Suc_conv_app_nth)
  have "mset (take (m - 1) pool') + {#pool ! j#} = mset (take m pool)"
  proof (cases "j = m - 1")
    case True
    then have "take (m - 1) pool' = take (m - 1) pool"
      by (simp add: pool'_def)
    with True split show ?thesis by simp
  next
    case False
    with j have jlt: "j < m - 1" by simp
    then have jl: "j < length (take (m - 1) pool)" using m by simp
    have "take (m - 1) pool' = (take (m - 1) pool)[j := pool ! (m - 1)]"
      by (simp add: pool'_def take_update_swap)
    then have "mset (take (m - 1) pool') =
        add_mset (pool ! (m - 1)) (mset (take (m - 1) pool) - {#take (m - 1) pool ! j#})"
      using jl by (simp add: mset_update)
    moreover have "take (m - 1) pool ! j = pool ! j" using jlt by simp
    moreover have "pool ! j \<in># mset (take (m - 1) pool)"
      using jl jlt by (metis in_multiset_in_set nth_mem nth_take)
    ultimately show ?thesis
      using split by simp
  qed
  with IH have "mset (pool ! j # fst (sample_loop pool' (m - 1) k g1)) \<subseteq># mset (take m pool)"
    by (metis add_mset_add_single mset.simps(2) mset_subset_eq_add_mset_cancel)
  then show ?case by (simp only: unfold)
qed

lemma count_protocol: "count_list all_words ''protocol'' = 2"
  by (simp add: all_words_def ADJECTIVES_def NOUNS_def VERBS_def TECH_WORDS_def)

lemma distinct_other_words: "distinct (removeAll ''protocol'' all_words)"
  by (simp add: all_words_def ADJECTIVES_def NOUNS_def VERBS_def TECH_WORDS_def)

lemma distinct_iff_count: "distinct xs \<longleftrightarrow> (\<forall>x. count (mset xs) x \<le> 1)"
proof (induction xs)
  case Nil
  then show ?case by simp
next
  case (Cons a xs)
  have "a \<notin> set xs \<longleftrightarrow> count (mset xs) a = 0"
    by (simp add: count_eq_zero_iff)
  then show ?case
    using Cons.IH by (auto simp: le_Suc_eq)
qed

lemma distinct_sub_mset:
  assumes "mset xs \<subseteq># mset ys" "distinct ys"
  shows "distinct xs"
proof -
  have "count (mset xs) x \<le> 1" for x
    using assms(2) mset_subset_eq_count [OF assms(1), of x]
    by (metis distinct_iff_count order_trans)
  then show ?thesis by (simp add: distinct_iff_count)
qed

lemma sub_mset_removeAll:
  assumes "mset xs \<subseteq># mset ys"
  shows "mset (removeAll a xs) \<subseteq># mset (removeAll a ys)"
  using assms by (simp add: removeAll_filter_not_eq multiset_filter_mono)

text \<open>
  C10, as the code has it. The dictionary of a generated document has between 15 and 25
  words, taken from distinct positions of the concatenation of the four word banks: no word
  occurs in it more often than in the banks. The banks hold \<^verbatim>\<open>protocol\<close> twice (in NOUNS and in
  TECH_WORDS) and every other word once, so all words other than \<^verbatim>\<open>protocol\<close> are pairwise
  distinct and \<^verbatim>\<open>protocol\<close> occurs at most twice.
\<close>

theorem dictionary_sampled_by_position:
  "\<exists>doc g' ws.
      generate_nara_template name include_sidebar include_footer include_labels layout_preset g
        = Inr (doc, g')
    \<and> dictionary_of doc = map JStr ws
    \<and> 15 \<le> length ws \<and> length ws \<le> 25
    \<and> mset ws \<subseteq># mset all_words
    \<and> distinct (removeAll ''protocol'' ws)
    \<and> count_list ws ''protocol'' \<le> 2"
proof -
  obtain doc g' d G where
    ret: "generate_nara_template name include_sidebar include_footer include_labels layout_preset g
        = Inr (doc, g')"
    and d: "15 \<le> d" "d \<le> 25"
    and dict: "dictionary_of doc = map JStr (fst (sample_loop all_words 73 d G))"
    using generate_nara_template_returns
      [of name include_sidebar include_footer include_labels g layout_preset]
    by blast
  define ws where "ws = fst (sample_loop all_words 73 d G)"
  have len: "length ws = d"
    by (simp add: ws_def length_sample_loop)
  have "mset ws \<subseteq># mset (take 73 all_words)"
    unfolding ws_def using d by (intro sample_loop_mset) (simp_all add: length_all_words)
  then have sub: "mset ws \<subseteq># mset all_words"
    by (simp add: length_all_words)
  have others: "distinct (removeAll ''protocol'' ws)"
    using sub_mset_removeAll [OF sub] distinct_other_words by (rule distinct_sub_mset)
  have "count (mset ws) ''protocol'' \<le> count (mset all_words) ''protocol''"
    using sub by (rule mset_subset_eq_count)
  then have twice: "count_list ws ''protocol'' \<le> 2"
    by (simp add: count_mset count_protocol)
  from ret dict len d sub others twice show ?thesis
    unfolding ws_def [symmetric] by blast
qed

theorem dictionary_sampled_by_position_witness:
  "\<exists>doc g' ws.
      generate_nara_template None None None None None [4, 9, 2 ^ 52 + 7, 1, 3, 0, 2, 6]
        = Inr (doc, g')
    \<and> dictionary_of doc = map JStr ws
    \<and> 15 \<le> length ws \<and> length ws \<le> 25
    \<and> mset ws \<subseteq># mset all_words
    \<and> distinct (removeAll ''protocol'' ws)
    \<and> count_list ws ''protocol'' \<le> 2"
  by (rule dictionary_sampled_by_position)

text \<open>
  C10, as stated, fails: when the sampler draws positions 31 and 55 of the 73 words, the
  dictionary starts with \<^verbatim>\<open>protocol\<close> twice.
\<close>

theorem dictionary_repeats_protocol:
  "\<not> isl (generate_nara_template (Some ''demo'') (Some False) (Some False) (Some False)
        (Some ''poster'') [0, 0, 0, 0, 0, 0, 0, 0, 31, 55])
   \<and> take 2 (dictionary_of (fst (projr (generate_nara_template (Some ''demo'') (Some False)
        (Some False) (Some False) (Some ''poster'') [0, 0, 0, 0, 0, 0, 0, 0, 31, 55])))) =
       [JStr ''protocol'', JStr ''protocol'']
   \<and> \<not> distinct (dictionary_of (fst (projr (generate_nara_template (Some ''demo'') (Some False)
        (Some False) (Some False) (Some ''poster'') [0, 0, 0, 0, 0, 0, 0, 0, 31, 55]))))"
proof -
  let ?tape = "[0, 0, 0, 0, 0, 0, 0, 0, 31, 55] :: rng"
  let ?doc = "fst (projr (generate_nara_template (Some ''demo'') (Some False) (Some False)
      (Some False) (Some ''poster'') ?tape))"
  have rd: "random_defaults (Some ''demo'') (Some False) (Some False) (Some False) ?tape =
      (''demo'', False, False, 0, ?tape)"
    by (simp add: random_defaults_def)
  have sl: "select_layout (Some ''poster'') ?tape = (LAYOUT_PRESETS ! 0, ?tape)"
    by (simp add: select_layout_def LAYOUT_PRESETS_def)
  have br: "snd (build_regions (LAYOUT_PRESETS ! 0) False False 0 ?tape) = [0, 0, 31, 55]"
    by (simp add: build_regions_def title_run_simps float_0_2_def split_beta)
  have returns: "\<not> isl (generate_nara_template (Some ''demo'') (Some False) (Some False)
      (Some False) (Some ''poster'') ?tape)"
    by (rule generated_document_parts(1) [OF rd sl])
  have dict: "dictionary_of ?doc = map JStr (fst (sample_loop all_words 73 15 [31, 55]))"
    by (simp add: generated_document_parts(4) [OF rd sl] br tape_simps)
  have "sample_loop all_words 73 15 [31, 55] = sample_loop all_words 73 (Suc (Suc 13)) [31, 55]"
    by simp
  then have "take 2 (fst (sample_loop all_words 73 15 [31, 55])) =
      [all_words ! (31 mod 73), all_words[31 mod 73 := all_words ! (73 - 1)] ! (55 mod (73 - 1))]"
    by (simp only: sample_loop_first_two)
  also have "\<dots> = [''protocol'', ''protocol'']"
    by (simp add: all_words_def ADJECTIVES_def NOUNS_def VERBS_def TECH_WORDS_def)
  finally have "take 2 (fst (sample_loop all_words 73 15 [31, 55])) = [''protocol'', ''protocol'']" .
  then have two: "take 2 (dictionary_of ?doc) = [JStr ''protocol'', JStr ''protocol'']"
    by (simp add: dict take_map)
  then have "\<not> distinct (take 2 (dictionary_of ?doc))"
    by simp
  then have "\<not> distinct (dictionary_of ?doc)"
    using distinct_take by blast
  with returns two show ?thesis by blast
qed

section \<open>Properties of the command line\<close>














section \<open>Properties of the sprite sheet compositor\<close>

subsection \<open>Pasting\<close>

lemma paste_size:
  "im_width (paste im src box) = im_width im"
  "im_height (paste im src box) = im_height im"
  by (simp_all add: paste_def)

lemma paste_mask_size:
  "im_width (paste_mask bl im src box) = im_width im"
  "im_height (paste_mask bl im src box) = im_height im"
  by (simp_all add: paste_mask_def)

lemma paste_columns_size:
  "im_width (paste_columns cols row frame_size frame sheet) = im_width sheet"
  "im_height (paste_columns cols row frame_size frame sheet) = im_height sheet"
  by (induction cols arbitrary: sheet) (simp_all add: paste_size Let_def)

lemma load_and_resize_size:
  assumes "load_and_resize e path target_size = Inr frame"
  shows "im_width frame = fst target_size" and "im_height frame = snd target_size"
  using assms
  by (auto simp: load_and_resize_def Let_def paste_mask_size Image_new_def
      split: sum.splits if_splits)

lemma paste_pixel:
  "im_pixel (paste im src (int x, int y)) i j =
     (if x \<le> i \<and> i < x + im_width src \<and> y \<le> j \<and> j < y + im_height src
      then im_pixel src (i - x) (j - y)
      else im_pixel im i j)"
proof -
  have "(0 \<le> int i - int x \<and> int i - int x < int (im_width src))
      = (x \<le> i \<and> i < x + im_width src)"
    by linarith
  moreover have "(0 \<le> int j - int y \<and> int j - int y < int (im_height src))
      = (y \<le> j \<and> j < y + im_height src)"
    by linarith
  moreover have "nat (int i - int x) = i - x" "nat (int j - int y) = j - y"
    by simp_all
  ultimately show ?thesis
    by (simp add: paste_def Let_def)
qed

lemma paste_columns_outside:
  assumes "\<not> (row * snd frame_size \<le> j \<and> j < row * snd frame_size + im_height frame)"
  shows "im_pixel (paste_columns cols row frame_size frame sheet) i j = im_pixel sheet i j"
  using assms
proof (induction cols arbitrary: sheet)
  case Nil
  then show ?case by simp
next
  case (Cons col cols)
  have "im_pixel (paste sheet frame (int (col * fst frame_size), int (row * snd frame_size))) i j
      = im_pixel sheet i j"
    using Cons.prems by (simp only: paste_pixel) auto
  with Cons show ?case by (simp add: Let_def del: of_nat_mult)
qed

lemma paste_columns_blank:
  "im_pixel (paste_columns cols row (fw, fh) (Image_new (fw, fh) c) sheet) i j =
     (if (\<exists>col \<in> set cols. col * fw \<le> i \<and> i < col * fw + fw) \<and> row * fh \<le> j \<and> j < row * fh + fh
      then c else im_pixel sheet i j)"
proof (induction cols arbitrary: sheet)
  case Nil
  then show ?case by simp
next
  case (Cons col cols)
  have one: "im_pixel (paste sheet (Image_new (fw, fh) c) (int (col * fw), int (row * fh))) i j =
      (if col * fw \<le> i \<and> i < col * fw + fw \<and> row * fh \<le> j \<and> j < row * fh + fh
       then c else im_pixel sheet i j)"
    by (simp only: paste_pixel) (simp add: Image_new_def)
  show ?case
    by (simp add: Cons.IH one Let_def del: of_nat_mult) blast
qed

lemma column_of_pixel:
  assumes "0 < fw" "i < n * fw"
  shows "\<exists>col \<in> set [0..<n]. col * fw \<le> i \<and> i < col * fw + fw"
proof
  show "i div fw \<in> set [0..<n]"
    using assms by (simp add: less_mult_imp_div_less)
  show "i div fw * fw \<le> i \<and> i < i div fw * fw + fw"
    using assms(1) by (metis div_mult_mod_eq le_add1 mod_less_divisor nat_add_left_cancel_less)
qed


lemma bands_apart:
  fixes r r' fh j :: nat
  assumes "r \<noteq> r'" "r * fh \<le> j" "j < r * fh + fh"
  shows "\<not> (r' * fh \<le> j \<and> j < r' * fh + fh)"
proof (cases "r' < r")
  case True
  then have "Suc r' * fh \<le> r * fh"
    by (intro mult_le_mono1) simp
  with assms(2) show ?thesis by simp
next
  case False
  with assms(1) have "Suc r * fh \<le> r' * fh"
    by (intro mult_le_mono1) simp
  with assms(3) show ?thesis by simp
qed

lemma place_rows_returns:
  assumes "\<forall>(r, d) \<in> set rows. os_path_exists e (sprite_path p d) \<longrightarrow>
      \<not> isl (load_and_resize e (sprite_path p d) frame_size)"
  shows "\<exists>sheet' out'. place_rows e p frame_size n rows sheet out = Inr (sheet', out')
      \<and> im_width sheet' = im_width sheet \<and> im_height sheet' = im_height sheet"
  using assms
proof (induction rows arbitrary: sheet out)
  case Nil
  then show ?case by simp
next
  case (Cons rd rows)
  obtain r d where rd: "rd = (r, d)" by (cases rd)
  from Cons.prems have rest: "\<forall>(r, d) \<in> set rows. os_path_exists e (sprite_path p d) \<longrightarrow>
      \<not> isl (load_and_resize e (sprite_path p d) frame_size)"
    by simp
  have next_rows: "\<exists>sheet' out'. place_rows e p frame_size n rows
        (paste_columns [0..<n] r frame_size frame sheet) out1 = Inr (sheet', out')
      \<and> im_width sheet' = im_width sheet \<and> im_height sheet' = im_height sheet" for frame out1
    using Cons.IH [OF rest, of "paste_columns [0..<n] r frame_size frame sheet" out1]
    by (simp add: paste_columns_size)
  show ?case
  proof (cases "os_path_exists e (sprite_path p d)")
    case False
    then show ?thesis
      using next_rows by (simp add: rd Let_def)
  next
    case True
    with Cons.prems obtain frame where "load_and_resize e (sprite_path p d) frame_size = Inr frame"
      by (cases "load_and_resize e (sprite_path p d) frame_size") (auto simp: rd)
    with True show ?thesis
      using next_rows by (simp add: rd Let_def)
  qed
qed

lemma place_rows_keeps:
  assumes "place_rows e p (fw, fh) n rows sheet out = Inr (sheet', out')"
    and "r \<notin> fst ` set rows" and "r * fh \<le> j" and "j < r * fh + fh"
  shows "im_pixel sheet' i j = im_pixel sheet i j"
  using assms(1,2)
proof (induction rows arbitrary: sheet out)
  case Nil
  then show ?case by simp
next
  case (Cons rd rows)
  obtain r' d where rd: "rd = (r', d)" by (cases rd)
  with Cons.prems(2) have diff: "r \<noteq> r'" and rest: "r \<notin> fst ` set rows"
    by auto
  have apart: "\<not> (r' * fh \<le> j \<and> j < r' * fh + fh)"
    using diff assms(3,4) by (rule bands_apart)
  show ?case
  proof (cases "os_path_exists e (sprite_path p d)")
    case False
    let ?sheet1 = "paste_columns [0..<n] r' (fw, fh) (Image_new (fw, fh) (0, 0, 0, 0)) sheet"
    from False Cons.prems(1) have "place_rows e p (fw, fh) n rows ?sheet1
        (out @ [''Warning: Missing '' @ sprite_path p d @ '', using empty frame'']) = Inr (sheet', out')"
      by (simp add: rd Let_def)
    then have "im_pixel sheet' i j = im_pixel ?sheet1 i j"
      using rest by (rule Cons.IH)
    also have "\<dots> = im_pixel sheet i j"
      using apart by (intro paste_columns_outside) (simp add: Image_new_def)
    finally show ?thesis .
  next
    case True
    with Cons.prems(1) obtain frame where
      frame: "load_and_resize e (sprite_path p d) (fw, fh) = Inr frame"
      by (cases "load_and_resize e (sprite_path p d) (fw, fh)") (auto simp: rd Let_def)
    let ?sheet1 = "paste_columns [0..<n] r' (fw, fh) frame sheet"
    from True frame Cons.prems(1) have "place_rows e p (fw, fh) n rows ?sheet1
        (out @ [''Loaded '' @ d @ '' -> row '' @ str_int (int r')]) = Inr (sheet', out')"
      by (simp add: rd Let_def)
    then have "im_pixel sheet' i j = im_pixel ?sheet1 i j"
      using rest by (rule Cons.IH)
    also have "\<dots> = im_pixel sheet i j"
      using apart load_and_resize_size(2) [OF frame] by (intro paste_columns_outside) simp
    finally show ?thesis .
  qed
qed

lemma place_rows_blank_band:
  assumes "place_rows e p (fw, fh) n rows sheet out = Inr (sheet', out')"
    and "distinct (map fst rows)" and "(r, d) \<in> set rows"
    and "\<not> os_path_exists e (sprite_path p d)"
    and "0 < fw" and "i < n * fw" and "r * fh \<le> j" and "j < r * fh + fh"
  shows "im_pixel sheet' i j = (0, 0, 0, 0)"
  using assms(1,2,3)
proof (induction rows arbitrary: sheet out)
  case Nil
  then show ?case by simp
next
  case (Cons rd rows)
  obtain r' d' where rd: "rd = (r', d')" by (cases rd)
  show ?case
  proof (cases "(r, d) = (r', d')")
    case True
    let ?sheet1 = "paste_columns [0..<n] r (fw, fh) (Image_new (fw, fh) (0, 0, 0, 0)) sheet"
    from True assms(4) Cons.prems(1) have run: "place_rows e p (fw, fh) n rows ?sheet1
        (out @ [''Warning: Missing '' @ sprite_path p d @ '', using empty frame'']) = Inr (sheet', out')"
      by (simp add: rd Let_def)
    from True Cons.prems(2) have "r \<notin> fst ` set rows"
      by (simp add: rd)
    with run have "im_pixel sheet' i j = im_pixel ?sheet1 i j"
      using assms(7,8) by (rule place_rows_keeps)
    also have "\<dots> = (0, 0, 0, 0)"
      using column_of_pixel [OF assms(5,6)] assms(7,8) by (simp add: paste_columns_blank)
    finally show ?thesis .
  next
    case False
    with Cons.prems(3) have later: "(r, d) \<in> set rows"
      by (auto simp: rd)
    from Cons.prems(2) have dist: "distinct (map fst rows)"
      by simp
    show ?thesis
    proof (cases "os_path_exists e (sprite_path p d')")
      case False
      with Cons.prems(1) have "place_rows e p (fw, fh) n rows
          (paste_columns [0..<n] r' (fw, fh) (Image_new (fw, fh) (0, 0, 0, 0)) sheet)
          (out @ [''Warning: Missing '' @ sprite_path p d' @ '', using empty frame'']) = Inr (sheet', out')"
        by (simp add: rd Let_def)
      then show ?thesis using dist later by (rule Cons.IH)
    next
      case True
      with Cons.prems(1) obtain frame where
        frame: "load_and_resize e (sprite_path p d') (fw, fh) = Inr frame"
        by (cases "load_and_resize e (sprite_path p d') (fw, fh)") (auto simp: rd Let_def)
      with True Cons.prems(1) have "place_rows e p (fw, fh) n rows
          (paste_columns [0..<n] r' (fw, fh) frame sheet)
          (out @ [''Loaded '' @ d' @ '' -> row '' @ str_int (int r')]) = Inr (sheet', out')"
        by (simp add: rd Let_def)
      then show ?thesis using dist later by (rule Cons.IH)
    qed
  qed
qed

subsection \<open>The two sheets\<close>

lemma load_and_resize_cong:
  assumes "env_files e1 path = env_files e path" "lanczos e1 = lanczos e"
    "mask_blend e1 = mask_blend e" "float_div e1 = float_div e" "float_mul e1 = float_mul e"
  shows "load_and_resize e1 path target_size = load_and_resize e path target_size"
  unfolding load_and_resize_def Image_open_def assms by (rule refl)

lemma sprite_path_not_walk:
  assumes "d \<in> set DIRECTIONS"
  shows "sprite_path p d \<noteq> OUTPUT_DIR @ ''/'' @ p @ ''_walk.png''"
  using assms by (auto simp: sprite_path_def SPRITES_DIR_def OUTPUT_DIR_def DIRECTIONS_def)

lemma create_spritesheet_sheet:
  assumes "\<forall>d \<in> set DIRECTIONS. os_path_exists e (sprite_path p d) \<longrightarrow>
      \<not> isl (load_and_resize e (sprite_path p d) (32, 40))"
    and "writable e (OUTPUT_DIR @ ''/'' @ output_name)"
  shows "\<exists>sheet out.
      create_spritesheet e p output_name (32, 40) 8 =
        Inr (OUTPUT_DIR @ ''/'' @ output_name,
             e\<lparr>env_files := (env_files e)(OUTPUT_DIR @ ''/'' @ output_name \<mapsto> Picture sheet)\<rparr>,
             out)
    \<and> im_width sheet = 256 \<and> im_height sheet = 320
    \<and> (\<forall>r < 8. \<not> os_path_exists e (sprite_path p (DIRECTIONS ! r)) \<longrightarrow>
         (\<forall>i < 256. \<forall>j. 40 * r \<le> j \<and> j < 40 * r + 40 \<longrightarrow> im_pixel sheet i j = (0, 0, 0, 0)))"
proof -
  let ?rows = "enumerate 0 DIRECTIONS"
  let ?blank = "Image_new (32 * 8, 40 * 8) (0, 0, 0, 0)"
  have len: "length DIRECTIONS = 8"
    by (simp add: DIRECTIONS_def)
  have "\<forall>(r, d) \<in> set ?rows. os_path_exists e (sprite_path p d) \<longrightarrow>
      \<not> isl (load_and_resize e (sprite_path p d) (32, 40))"
    using assms(1) by (auto simp: in_set_enumerate_eq)
  then obtain sheet out where
    run: "place_rows e p (32, 40) 8 ?rows ?blank [] = Inr (sheet, out)"
    and w: "im_width sheet = im_width ?blank" and h: "im_height sheet = im_height ?blank"
    using place_rows_returns [of ?rows e p "(32, 40)" 8 ?blank "[]"] by blast
  have band: "im_pixel sheet i j = (0, 0, 0, 0)"
    if "r < 8" "\<not> os_path_exists e (sprite_path p (DIRECTIONS ! r))" "i < 256"
      "40 * r \<le> j" "j < 40 * r + 40" for r i j
  proof (rule place_rows_blank_band [OF run])
    show "distinct (map fst ?rows)" by simp
    show "(r, DIRECTIONS ! r) \<in> set ?rows"
      using that(1) by (simp add: in_set_enumerate_eq len)
    show "\<not> os_path_exists e (sprite_path p (DIRECTIONS ! r))" by (rule that(2))
    show "0 < (32::nat)" by simp
    show "i < 8 * 32" using that(3) by simp
    show "r * 40 \<le> j" using that(4) by (simp add: mult.commute)
    show "j < r * 40 + 40" using that(5) by (simp add: mult.commute)
  qed
  have "create_spritesheet e p output_name (32, 40) 8 =
        Inr (OUTPUT_DIR @ ''/'' @ output_name,
             e\<lparr>env_files := (env_files e)(OUTPUT_DIR @ ''/'' @ output_name \<mapsto> Picture sheet)\<rparr>,
             out @ [[CHR 0x0A] @ ''Created '' @ (OUTPUT_DIR @ ''/'' @ output_name) @ '' (''
               @ str_int (int (32 * 8)) @ [CHR 0xC3, CHR 0x97] @ str_int (int (40 * 8)) @ '')''])"
    using run assms(2) by (simp add: create_spritesheet_def Let_def)
  moreover have "im_width sheet = 256" "im_height sheet = 320"
    using w h by (simp_all add: Image_new_def)
  ultimately show ?thesis
    using band by blast
qed

text \<open>
  C4, as the code has it. Whenever every direction file that exists can be loaded, that
  is, \<^verbatim>\<open>load_and_resize\<close> returns a frame for it, and the two output paths can be written,
  and in particular when some or all of the eight files are missing, both calls of
  \<^verbatim>\<open>create_spritesheet\<close> return; the walk sheet and the idle sheet are 256 by 320 pixels; and
  the row of every missing direction is fully transparent in both, over its 8 columns of
  width 32 and its 40 lines.
\<close>

theorem sheets_when_sprites_load:
  assumes "p = (if 1 < length argv then argv ! 1 else ''test'')"
    and "\<forall>d \<in> set DIRECTIONS. os_path_exists e (sprite_path p d) \<longrightarrow>
      \<not> isl (load_and_resize e (sprite_path p d) (32, 40))"
    and "writable e (OUTPUT_DIR @ ''/'' @ p @ ''_walk.png'')"
    and "writable e (OUTPUT_DIR @ ''/'' @ p @ ''_idle.png'')"
  shows "\<exists>e' out walk idle.
      composite_main argv e =
        Inr (OUTPUT_DIR @ ''/'' @ p @ ''_walk.png'', OUTPUT_DIR @ ''/'' @ p @ ''_idle.png'', e', out)
    \<and> saved_sheet e' (OUTPUT_DIR @ ''/'' @ p @ ''_walk.png'') = Some walk
    \<and> saved_sheet e' (OUTPUT_DIR @ ''/'' @ p @ ''_idle.png'') = Some idle
    \<and> im_width walk = 256 \<and> im_height walk = 320
    \<and> im_width idle = 256 \<and> im_height idle = 320
    \<and> (\<forall>r < 8. \<not> os_path_exists e (sprite_path p (DIRECTIONS ! r)) \<longrightarrow>
         (\<forall>i < 256. \<forall>j. 40 * r \<le> j \<and> j < 40 * r + 40 \<longrightarrow>
            im_pixel walk i j = (0, 0, 0, 0) \<and> im_pixel idle i j = (0, 0, 0, 0)))"
proof -
  let ?walk_path = "OUTPUT_DIR @ ''/'' @ p @ ''_walk.png''"
  let ?idle_path = "OUTPUT_DIR @ ''/'' @ p @ ''_idle.png''"
  obtain walk out1 where
    c1: "create_spritesheet e p (p @ ''_walk.png'') (32, 40) 8 =
        Inr (?walk_path, e\<lparr>env_files := (env_files e)(?walk_path \<mapsto> Picture walk)\<rparr>, out1)"
    and walk: "im_width walk = 256" "im_height walk = 320"
    and walk_band: "\<forall>r < 8. \<not> os_path_exists e (sprite_path p (DIRECTIONS ! r)) \<longrightarrow>
         (\<forall>i < 256. \<forall>j. 40 * r \<le> j \<and> j < 40 * r + 40 \<longrightarrow> im_pixel walk i j = (0, 0, 0, 0))"
    using create_spritesheet_sheet [OF assms(2), of "p @ ''_walk.png''"] assms(3) by auto
  define e1 where "e1 = e\<lparr>env_files := (env_files e)(?walk_path \<mapsto> Picture walk)\<rparr>"
  have same_file: "env_files e1 (sprite_path p d) = env_files e (sprite_path p d)"
    if "d \<in> set DIRECTIONS" for d
    using sprite_path_not_walk [OF that, of p] by (simp add: e1_def)
  have same_exists: "os_path_exists e1 (sprite_path p d) = os_path_exists e (sprite_path p d)"
    if "d \<in> set DIRECTIONS" for d
    using same_file [OF that] by (simp add: os_path_exists_def)
  have same_load: "load_and_resize e1 (sprite_path p d) (32, 40) =
      load_and_resize e (sprite_path p d) (32, 40)" if "d \<in> set DIRECTIONS" for d
    using same_file [OF that] by (intro load_and_resize_cong) (simp_all add: e1_def)
  have loads1: "\<forall>d \<in> set DIRECTIONS. os_path_exists e1 (sprite_path p d) \<longrightarrow>
      \<not> isl (load_and_resize e1 (sprite_path p d) (32, 40))"
    using assms(2) same_exists same_load by simp
  obtain idle out2 where
    c2: "create_spritesheet e1 p (p @ ''_idle.png'') (32, 40) 8 =
        Inr (?idle_path, e1\<lparr>env_files := (env_files e1)(?idle_path \<mapsto> Picture idle)\<rparr>, out2)"
    and idle: "im_width idle = 256" "im_height idle = 320"
    and idle_band1: "\<forall>r < 8. \<not> os_path_exists e1 (sprite_path p (DIRECTIONS ! r)) \<longrightarrow>
         (\<forall>i < 256. \<forall>j. 40 * r \<le> j \<and> j < 40 * r + 40 \<longrightarrow> im_pixel idle i j = (0, 0, 0, 0))"
    using create_spritesheet_sheet [OF loads1, of "p @ ''_idle.png''"] assms(4)
    by (auto simp: e1_def)
  have "length DIRECTIONS = 8"
    by (simp add: DIRECTIONS_def)
  then have idle_band: "\<forall>r < 8. \<not> os_path_exists e (sprite_path p (DIRECTIONS ! r)) \<longrightarrow>
         (\<forall>i < 256. \<forall>j. 40 * r \<le> j \<and> j < 40 * r + 40 \<longrightarrow> im_pixel idle i j = (0, 0, 0, 0))"
    using idle_band1 same_exists by (metis nth_mem)
  define e2 where "e2 = e1\<lparr>env_files := (env_files e1)(?idle_path \<mapsto> Picture idle)\<rparr>"
  have main: "\<exists>out. composite_main argv e = Inr (?walk_path, ?idle_path, e2, out)"
    using c1 c2
    by (simp add: composite_main_def assms(1) WALK_FRAME_SIZE_def WALK_FRAMES_PER_DIR_def
        IDLE_FRAME_SIZE_def IDLE_FRAMES_PER_DIR_def e1_def e2_def Let_def)
  have saved: "saved_sheet e2 ?walk_path = Some walk" "saved_sheet e2 ?idle_path = Some idle"
    by (simp_all add: saved_sheet_def e2_def e1_def)
  from main saved walk idle walk_band idle_band show ?thesis
    by blast
qed

theorem sheets_when_sprites_load_witness:
  "os_path_exists sample_env (sprite_path ''hero'' ''south'')
   \<and> \<not> isl (load_and_resize sample_env (sprite_path ''hero'' ''south'') (32, 40))
   \<and> \<not> os_path_exists sample_env (sprite_path ''hero'' ''north'')
   \<and> writable sample_env ''public/sprites/hero_walk.png''
   \<and> writable sample_env ''public/sprites/hero_idle.png''
   \<and> (\<exists>e' out walk idle.
        composite_main [''composite_spritesheet.py'', ''hero''] sample_env =
          Inr (''public/sprites/hero_walk.png'', ''public/sprites/hero_idle.png'', e', out)
      \<and> saved_sheet e' ''public/sprites/hero_walk.png'' = Some walk
      \<and> saved_sheet e' ''public/sprites/hero_idle.png'' = Some idle
      \<and> im_width walk = 256 \<and> im_height walk = 320
      \<and> im_width idle = 256 \<and> im_height idle = 320
      \<and> im_pixel walk 100 170 = (0, 0, 0, 0) \<and> im_pixel idle 100 170 = (0, 0, 0, 0))"
proof -
  have south: "os_path_exists sample_env (sprite_path ''hero'' ''south'')"
    by (simp add: os_path_exists_def sample_env_def sprite_path_def SPRITES_DIR_def)
  have loads: "\<not> isl (load_and_resize sample_env (sprite_path ''hero'' ''south'') (32, 40))"
    by (simp add: load_and_resize_def Image_open_def sample_env_def sprite_path_def
        SPRITES_DIR_def Let_def)
  have others: "\<not> os_path_exists sample_env (sprite_path ''hero'' d)" if "d \<noteq> ''south''" for d
    using that by (simp add: os_path_exists_def sample_env_def sprite_path_def SPRITES_DIR_def)
  then have north: "\<not> os_path_exists sample_env (sprite_path ''hero'' ''north'')"
    by simp
  have hyp: "\<forall>d \<in> set DIRECTIONS. os_path_exists sample_env (sprite_path ''hero'' d) \<longrightarrow>
      \<not> isl (load_and_resize sample_env (sprite_path ''hero'' d) (32, 40))"
    using loads others by metis
  have w: "writable sample_env (OUTPUT_DIR @ ''/'' @ ''hero'' @ ''_walk.png'')"
    "writable sample_env (OUTPUT_DIR @ ''/'' @ ''hero'' @ ''_idle.png'')"
    by (simp_all add: sample_env_def)
  have w': "writable sample_env ''public/sprites/hero_walk.png''"
    "writable sample_env ''public/sprites/hero_idle.png''"
    by (simp_all add: sample_env_def)
  have p: "''hero'' = (if 1 < length [''composite_spritesheet.py'', ''hero'']
      then [''composite_spritesheet.py'', ''hero''] ! 1 else ''test'')"
    by simp
  obtain e' out walk idle where
    run: "composite_main [''composite_spritesheet.py'', ''hero''] sample_env =
        Inr (OUTPUT_DIR @ ''/'' @ ''hero'' @ ''_walk.png'',
             OUTPUT_DIR @ ''/'' @ ''hero'' @ ''_idle.png'', e', out)"
    and saved: "saved_sheet e' (OUTPUT_DIR @ ''/'' @ ''hero'' @ ''_walk.png'') = Some walk"
      "saved_sheet e' (OUTPUT_DIR @ ''/'' @ ''hero'' @ ''_idle.png'') = Some idle"
    and sizes: "im_width walk = 256" "im_height walk = 320"
      "im_width idle = 256" "im_height idle = 320"
    and band: "\<forall>r < 8. \<not> os_path_exists sample_env (sprite_path ''hero'' (DIRECTIONS ! r)) \<longrightarrow>
         (\<forall>i < 256. \<forall>j. 40 * r \<le> j \<and> j < 40 * r + 40 \<longrightarrow>
            im_pixel walk i j = (0, 0, 0, 0) \<and> im_pixel idle i j = (0, 0, 0, 0))"
    using sheets_when_sprites_load [OF p hyp w(1) w(2)] by (elim exE conjE) (rule that)
  have "DIRECTIONS ! 4 = ''north''"
    by (simp add: DIRECTIONS_def)
  with band north have "\<forall>i < 256. \<forall>j. 40 * 4 \<le> j \<and> j < 40 * 4 + 40 \<longrightarrow>
      im_pixel walk i j = (0, 0, 0, 0) \<and> im_pixel idle i j = (0, 0, 0, 0)"
    by (metis numeral_less_iff semiring_norm(76) semiring_norm(78) semiring_norm(79))
  then have pixels: "im_pixel walk 100 170 = (0, 0, 0, 0) \<and> im_pixel idle 100 170 = (0, 0, 0, 0)"
    by simp
  have paths: "OUTPUT_DIR @ ''/'' @ ''hero'' @ ''_walk.png'' = ''public/sprites/hero_walk.png''"
    "OUTPUT_DIR @ ''/'' @ ''hero'' @ ''_idle.png'' = ''public/sprites/hero_idle.png''"
    by (simp_all add: OUTPUT_DIR_def)
  from run saved sizes pixels have
    "composite_main [''composite_spritesheet.py'', ''hero''] sample_env =
          Inr (''public/sprites/hero_walk.png'', ''public/sprites/hero_idle.png'', e', out)
      \<and> saved_sheet e' ''public/sprites/hero_walk.png'' = Some walk
      \<and> saved_sheet e' ''public/sprites/hero_idle.png'' = Some idle
      \<and> im_width walk = 256 \<and> im_height walk = 320
      \<and> im_width idle = 256 \<and> im_height idle = 320
      \<and> im_pixel walk 100 170 = (0, 0, 0, 0) \<and> im_pixel idle 100 170 = (0, 0, 0, 0)"
    by (simp only: paths)
  then have "\<exists>e' out walk idle.
        composite_main [''composite_spritesheet.py'', ''hero''] sample_env =
          Inr (''public/sprites/hero_walk.png'', ''public/sprites/hero_idle.png'', e', out)
      \<and> saved_sheet e' ''public/sprites/hero_walk.png'' = Some walk
      \<and> saved_sheet e' ''public/sprites/hero_idle.png'' = Some idle
      \<and> im_width walk = 256 \<and> im_height walk = 320
      \<and> im_width idle = 256 \<and> im_height idle = 320
      \<and> im_pixel walk 100 170 = (0, 0, 0, 0) \<and> im_pixel idle 100 170 = (0, 0, 0, 0)"
    by (intro exI)
  with south loads north w' show ?thesis
    by (intro conjI)
qed

text \<open>
  C4, as stated, fails for a direction file that exists and is not a picture: only a
  missing file is replaced by an empty frame, and what \<^verbatim>\<open>Image.open\<close> raises for the file
  leaves \<^verbatim>\<open>create_spritesheet\<close> uncaught. It also fails when all eight files are missing
  because the directory is: the sheet is built and saving it raises.
\<close>

theorem unreadable_sprite_raises:
  "os_path_exists broken_env (sprite_path ''hero'' ''south'')
   \<and> load_and_resize broken_env (sprite_path ''hero'' ''south'') WALK_FRAME_SIZE
       = Inl UnidentifiedImageError
   \<and> create_spritesheet broken_env ''hero'' ''hero_walk.png'' WALK_FRAME_SIZE WALK_FRAMES_PER_DIR
       = Inl UnidentifiedImageError
   \<and> composite_main [''composite_spritesheet.py'', ''hero''] broken_env
       = Inl UnidentifiedImageError
   \<and> list_all (Not \<circ> os_path_exists missing_env \<circ> sprite_path ''hero'') DIRECTIONS
   \<and> create_spritesheet missing_env ''hero'' ''hero_walk.png'' WALK_FRAME_SIZE WALK_FRAMES_PER_DIR
       = Inl OSError"
proof -
  have none: "\<not> os_path_exists missing_env path" for path
    by (simp add: os_path_exists_def missing_env_def)
  then have all_missing:
    "list_all (Not \<circ> os_path_exists missing_env \<circ> sprite_path ''hero'') DIRECTIONS"
    by (simp add: list_all_iff)
  have "\<forall>(r, d) \<in> set (enumerate 0 DIRECTIONS).
      os_path_exists missing_env (sprite_path ''hero'' d) \<longrightarrow>
      \<not> isl (load_and_resize missing_env (sprite_path ''hero'' d) (32, 40))"
    using none by simp
  then obtain built out where "place_rows missing_env ''hero'' (32, 40) 8 (enumerate 0 DIRECTIONS)
      (Image_new (32 * 8, 40 * 8) (0, 0, 0, 0)) [] = Inr (built, out)"
    using place_rows_returns [of "enumerate 0 DIRECTIONS" missing_env "''hero''" "(32, 40)" 8
      "Image_new (32 * 8, 40 * 8) (0, 0, 0, 0)" "[]"] by blast
  then have unsaved: "create_spritesheet missing_env ''hero'' ''hero_walk.png'' WALK_FRAME_SIZE
      WALK_FRAMES_PER_DIR = Inl OSError"
    by (simp add: create_spritesheet_def WALK_FRAME_SIZE_def WALK_FRAMES_PER_DIR_def Let_def
        missing_env_def)
  have south: "os_path_exists broken_env (sprite_path ''hero'' ''south'')"
    by (simp add: os_path_exists_def broken_env_def sprite_path_def SPRITES_DIR_def)
  have load: "load_and_resize broken_env (sprite_path ''hero'' ''south'') WALK_FRAME_SIZE
      = Inl UnidentifiedImageError"
    by (simp add: load_and_resize_def Image_open_def broken_env_def sprite_path_def
        SPRITES_DIR_def)
  have sheet: "create_spritesheet broken_env ''hero'' ''hero_walk.png'' WALK_FRAME_SIZE
      WALK_FRAMES_PER_DIR = Inl UnidentifiedImageError"
    using south load by (simp add: create_spritesheet_def DIRECTIONS_def Let_def)
  then have "composite_main [''composite_spritesheet.py'', ''hero''] broken_env
      = Inl UnidentifiedImageError"
    by (simp add: composite_main_def)
  with south load sheet all_missing unsaved show ?thesis
    by (intro conjI)
qed

end
